theory Spec2Isabelle
  imports Complex_Main "HOL-Library.Sublist"
begin

section \<open>The sample non-linear VPAID ad\<close>

text \<open>
  The repository holds two variants of one JavaScript object, \<open>VpaidNonLinear\<close>:
  \<^item> \<open>src/vpaid/VpaidNonLinear.js\<close>, embedded under the source's names;
  \<^item> \<open>src/unnamed/part_000\<close>, embedded under the source's names with the suffix \<open>_p0\<close>
    wherever its text differs from the first file.
  A method whose text is the same in both files has one definition, over the fields the
  two objects share. A private name \<open>x_\<close> of the source is written \<open>x_'\<close>, since a name
  cannot end in an underscore here; \<open>log\<close> and the attribute \<open>linear\<close> are written
  \<open>log_js\<close> and \<open>linear_attr\<close>.

  A method is a function from the world before the call to a completion and the world
  after it. A JavaScript exception leaves the assignments made before it in place, so the
  world is returned next to the completion, also when the completion is a throw.
\<close>

subsection \<open>Values\<close>

text \<open>
  Values the host passes in and the object stores without looking at them. Numbers are
  reals: no property below depends on floating-point rounding, NaN or the infinities.
\<close>

datatype jsval = JUndefined | JNull | JBool bool | JNum real | JStr string

text \<open>A reference that may be \<open>undefined\<close> or \<open>null\<close>; using either as an object throws.\<close>

datatype 'a handle = Undefined | Null | Obj 'a

datatype error = TypeError | ReferenceError | SyntaxError

datatype 'r completion = Return 'r | Throw error

text \<open>
  Host functions and context objects are known by their identity only. A subscribed
  callback is taken to return normally and not to call back into the ad.
\<close>

datatype callback = Callback nat

datatype thisArg = Context nat

text \<open>
  A property of \<open>eventsCallbacks_'\<close>: \<open>null\<close> (what \<open>unsubscribe\<close> stores) or the function
  \<open>aCallback.bind(aContext)\<close>. A name that was never assigned is absent from the map.
\<close>

datatype cbslot = NullSlot | BoundFn callback thisArg

text \<open>
  What the page observes of the dispatcher: \<open>CallEvent e\<close> records that \<open>callEvent_\<close> was
  entered with event type \<open>e\<close> (the event was emitted, whether or not anybody listens);
  \<open>Invoked f c args\<close> records that the function \<open>f\<close> bound to \<open>c\<close> was called with \<open>args\<close>.
\<close>

datatype effect = CallEvent string | Invoked callback thisArg "jsval list"

text \<open>A console line is the concatenation the source writes, kept in its parts.\<close>

datatype logpart = Txt string | Val jsval | Fun callback

subsection \<open>The host's elements\<close>

record video =
  url :: string
  mimetype :: string

text \<open>
  The video element is the host's: the ad sees what \<open>canPlayType\<close> answers, and the host
  sees the calls the ad makes on it, in order. Every listener the ad adds is
  \<open>this.stopAd.bind(this)\<close>, so a listener is known by its event name.
\<close>

datatype videoCall = SetAttribute string jsval | AddEventListener string | Play | Pause

record videoElem =
  canPlayType :: "string \<Rightarrow> string"
  calls :: "videoCall list"

text \<open>The click listeners the two files attach to their overlay images.\<close>

datatype handler = FirstOverlay | SecondOverlay

record img =
  src :: string
  classList :: "string list"
  onclick :: handler

record slotElem =
  children :: "img list"

text \<open>
  The free variable \<open>elem\<close> of \<open>expandAd\<close> in \<open>src/vpaid/VpaidNonLinear.js\<close>: the file
  declares no such variable, so it is whatever the page's global scope holds under that
  name. \<open>Element b\<close> is an object, \<open>b\<close> telling whether it has \<open>requestFullscreen\<close>.
\<close>

datatype global = Undeclared | Nullish | Element bool

text \<open>A pending \<open>setTimeout(this.callEvent_.bind(this), delay, args)\<close>, set at time \<open>setAt\<close>.\<close>

record timer =
  delay :: nat
  setAt :: real
  args :: "string list"

text \<open>
  \<open>creativeData['AdParameters']\<close> is JSON text. \<open>JSON.parse\<close> is the host's: the model takes
  its outcome on that text, a syntax error, \<open>null\<close>, or a value of the documented shape
  with \<open>overlays\<close> and \<open>videos\<close> each present or not. \<open>creativeData\<close> and
  \<open>environmentVars\<close> themselves are objects, as their declared types say.
\<close>

record adparams =
  overlays :: "string list option"
  videos :: "video list option"

datatype parsed = SyntaxErr | JsonNull | Json adparams

record creativeData =
  AdParameters :: parsed

record environmentVars =
  slot :: "slotElem handle"
  videoSlot :: "videoElem handle"

subsection \<open>The object and its page\<close>

record attributes =
  companions :: string
  desiredBitrate :: jsval
  duration :: real
  expanded :: bool
  height :: jsval
  icons :: string
  linear_attr :: bool
  skippableState :: bool
  viewMode :: jsval
  width :: jsval
  volume :: jsval

text \<open>
  The page: the clock \<open>new Date().getTime()\<close> reads (milliseconds), the global \<open>elem\<close>, the
  console, the events emitted so far, the pending timers, the style sheets appended to
  \<open>document.head\<close> and the number of \<open>requestFullscreen\<close> calls.
\<close>

record host =
  now :: real
  elem :: global
  console :: "logpart list list"
  events :: "effect list"
  timers :: "timer list"
  head :: "string list"
  fullscreen :: nat

text \<open>
  The fields both constructors set. The elements behind \<open>slot_'\<close> and \<open>videoSlot_'\<close> are kept
  in the fields themselves: the ad is their only writer in this model.
\<close>

record ad = host +
  slot_' :: "slotElem handle"
  videoSlot_' :: "videoElem handle"
  eventsCallbacks_' :: "string \<Rightarrow> cbslot option"
  attributes_' :: attributes
  startTime_' :: real

record vpaid = ad +
  imageUrls_' :: "string list"
  videos_' :: "video list"

record vpaid_p0 = ad +
  quartileEvents_' :: "(string \<times> nat) list"
  nextQuartileIndex_' :: nat
  parameters_' :: "adparams handle"

definition page :: "real \<Rightarrow> global \<Rightarrow> host" where
  "page t g = \<lparr>now = t, elem = g, console = [], events = [], timers = [], head = [],
     fullscreen = 0\<rparr>"

text \<open>\<open>new VpaidNonLinear()\<close> of \<open>src/vpaid/VpaidNonLinear.js\<close>; \<open>videoSlot_'\<close> is not assigned.\<close>

definition VpaidNonLinear :: "host \<Rightarrow> vpaid" where
  "VpaidNonLinear h = \<lparr>now = now h, elem = elem h, console = console h, events = events h,
     timers = timers h, head = head h, fullscreen = fullscreen h,
     slot_' = Null,
     videoSlot_' = Undefined,
     eventsCallbacks_' = Map.empty,
     attributes_' = \<lparr>companions = '''', desiredBitrate = JNum 256, duration = 10,
       expanded = False, height = JNum 0, icons = '''', linear_attr = False,
       skippableState = False, viewMode = JStr ''normal'', width = JNum 0,
       volume = JNum 50\<rparr>,
     startTime_' = 0,
     imageUrls_' = [],
     videos_' = []\<rparr>"

text \<open>\<open>new VpaidNonLinear()\<close> of \<open>src/unnamed/part_000\<close>.\<close>

definition VpaidNonLinear_p0 :: "host \<Rightarrow> vpaid_p0" where
  "VpaidNonLinear_p0 h = \<lparr>now = now h, elem = elem h, console = console h,
     events = events h, timers = timers h, head = head h, fullscreen = fullscreen h,
     slot_' = Null,
     videoSlot_' = Null,
     eventsCallbacks_' = Map.empty,
     attributes_' = \<lparr>companions = '''', desiredBitrate = JNum 256, duration = 10,
       expanded = False, height = JNum 0, icons = '''', linear_attr = False,
       skippableState = False, viewMode = JStr ''normal'', width = JNum 0,
       volume = JNum 1\<rparr>,
     startTime_' = 0,
     quartileEvents_' = [(''AdImpression'', 0), (''AdVideoStart'', 0),
       (''AdVideoFirstQuartile'', 25), (''AdVideoMidpoint'', 50),
       (''AdVideoThirdQuartile'', 75), (''AdVideoComplete'', 100)],
     nextQuartileIndex_' = 0,
     parameters_' = Obj \<lparr>overlays = None, videos = None\<rparr>\<rparr>"

subsection \<open>Sequencing\<close>

text \<open>The next statement runs only when the one before it returned.\<close>

definition andThen ::
  "('w \<Rightarrow> unit completion \<times> 'w) \<Rightarrow> ('w \<Rightarrow> 'r completion \<times> 'w) \<Rightarrow> 'w \<Rightarrow> 'r completion \<times> 'w" where
  "andThen f g w = (case f w of (Return u, w') \<Rightarrow> g w' | (Throw e, w') \<Rightarrow> (Throw e, w'))"

text \<open>The events a call added: those of the world after it beyond those before it.\<close>

definition emitted :: "'a ad_scheme \<Rightarrow> 'b ad_scheme \<Rightarrow> effect list" where
  "emitted before after = drop (length (events before)) (events after)"

subsection \<open>Methods with the same text in both files\<close>

text \<open>\<open>console.log(message)\<close>; it does not throw.\<close>

definition log_js :: "logpart list \<Rightarrow> 'a ad_scheme \<Rightarrow> 'a ad_scheme" where
  "log_js message w = w\<lparr>console := console w @ [message]\<rparr>"

text \<open>
  \<open>if (eventType in this.eventsCallbacks_) this.eventsCallbacks_[eventType]();\<close>
  A name that holds \<open>null\<close> is in the object, and calling \<open>null\<close> throws a TypeError.
  Event names are taken to be other than the property names every object inherits
  (\<open>toString\<close>, \<open>constructor\<close>, \<open>__proto__\<close> and the like): the names the two files
  emit are fixed strings of the ad contract, none of them inherited, so \<open>in\<close> is
  membership among the assigned names.
\<close>

definition callEvent_' :: "string \<Rightarrow> 'a ad_scheme \<Rightarrow> unit completion \<times> 'a ad_scheme" where
  "callEvent_' eventType w =
     (let w1 = w\<lparr>events := events w @ [CallEvent eventType]\<rparr>
      in case eventsCallbacks_' w1 eventType of
           None \<Rightarrow> (Return (), w1)
         | Some NullSlot \<Rightarrow> (Throw TypeError, w1)
         | Some (BoundFn f c) \<Rightarrow> (Return (), w1\<lparr>events := events w1 @ [Invoked f c []]\<rparr>))"

definition handshakeVersion :: "string \<Rightarrow> 'a ad_scheme \<Rightarrow> string completion \<times> 'a ad_scheme" where
  "handshakeVersion version w = (Return ''2.0'', w)"

definition unsubscribe :: "string \<Rightarrow> 'a ad_scheme \<Rightarrow> unit completion \<times> 'a ad_scheme" where
  "unsubscribe eventName w =
     (let w1 = log_js [Txt ''unsubscribe '', Val (JStr eventName)] w
      in (Return (), w1\<lparr>eventsCallbacks_' := (eventsCallbacks_' w1)(eventName \<mapsto> NullSlot)\<rparr>))"

definition getAdWidth :: "'a ad_scheme \<Rightarrow> jsval completion \<times> 'a ad_scheme" where
  "getAdWidth w = (Return (width (attributes_' w)), w)"

definition getAdHeight :: "'a ad_scheme \<Rightarrow> jsval completion \<times> 'a ad_scheme" where
  "getAdHeight w = (Return (height (attributes_' w)), w)"

definition setAdVolume :: "jsval \<Rightarrow> 'a ad_scheme \<Rightarrow> unit completion \<times> 'a ad_scheme" where
  "setAdVolume v w =
     (let w1 = w\<lparr>attributes_' := (attributes_' w)\<lparr>volume := v\<rparr>\<rparr>;
          w2 = log_js [Txt ''setAdVolume '', Val v] w1
      in callEvent_' ''AdVolumeChange'' w2)"

definition getAdVolume :: "'a ad_scheme \<Rightarrow> jsval completion \<times> 'a ad_scheme" where
  "getAdVolume w =
     (let w1 = log_js [Txt ''getAdVolume''] w
      in (Return (volume (attributes_' w1)), w1))"

text \<open>
  \<open>setTimeout(callback, 75, ['AdStopped'])\<close>: nothing is called now; the timer holds the
  array that \<open>callEvent_\<close> will get as its event type.
\<close>

definition stopAd :: "'a ad_scheme \<Rightarrow> unit completion \<times> 'a ad_scheme" where
  "stopAd w =
     (let w1 = log_js [Txt ''Stopping ad''] w
      in (Return (), w1\<lparr>timers := timers w1 @
            [\<lparr>delay = 75, setAt = now w1, args = [''AdStopped'']\<rparr>]\<rparr>))"

text \<open>A method call on \<open>this.videoSlot_\<close>; on \<open>null\<close> or \<open>undefined\<close> it is a TypeError.\<close>

definition videoSlotCall :: "videoCall \<Rightarrow> 'a ad_scheme \<Rightarrow> unit completion \<times> 'a ad_scheme" where
  "videoSlotCall c w =
     (case videoSlot_' w of
        Obj el \<Rightarrow> (Return (), w\<lparr>videoSlot_' := Obj (el\<lparr>calls := calls el @ [c]\<rparr>)\<rparr>)
      | Null \<Rightarrow> (Throw TypeError, w)
      | Undefined \<Rightarrow> (Throw TypeError, w))"

definition pauseAd :: "'a ad_scheme \<Rightarrow> unit completion \<times> 'a ad_scheme" where
  "pauseAd w =
     andThen (videoSlotCall Pause) (callEvent_' ''AdPaused'') (log_js [Txt ''pauseAd''] w)"

definition getAdExpanded :: "'a ad_scheme \<Rightarrow> bool completion \<times> 'a ad_scheme" where
  "getAdExpanded w =
     (let w1 = log_js [Txt ''getAdExpanded''] w
      in (Return (expanded (attributes_' w1)), w1))"

definition getAdSkippableState :: "'a ad_scheme \<Rightarrow> bool completion \<times> 'a ad_scheme" where
  "getAdSkippableState w =
     (let w1 = log_js [Txt ''getAdSkippableState''] w
      in (Return (skippableState (attributes_' w1)), w1))"

definition collapseAd :: "'a ad_scheme \<Rightarrow> unit completion \<times> 'a ad_scheme" where
  "collapseAd w =
     (let w1 = log_js [Txt ''collapseAd''] w
      in (Return (), w1\<lparr>attributes_' := (attributes_' w1)\<lparr>expanded := False\<rparr>\<rparr>))"

definition skipAd :: "'a ad_scheme \<Rightarrow> unit completion \<times> 'a ad_scheme" where
  "skipAd w =
     (let w1 = log_js [Txt ''skipAd''] w;
          skippable = skippableState (attributes_' w1)
      in if skippable then callEvent_' ''AdSkipped'' w1 else (Return (), w1))"

definition getAdRemainingTime :: "'a ad_scheme \<Rightarrow> real completion \<times> 'a ad_scheme" where
  "getAdRemainingTime w =
     (let currentTime = now w;
          remainingTime = duration (attributes_' w) - (currentTime - startTime_' w) / 1000
      in (Return remainingTime, w))"

definition getAdDuration :: "'a ad_scheme \<Rightarrow> real completion \<times> 'a ad_scheme" where
  "getAdDuration w = (Return (duration (attributes_' w)), w)"

definition getAdCompanions :: "'a ad_scheme \<Rightarrow> string completion \<times> 'a ad_scheme" where
  "getAdCompanions w = (Return (companions (attributes_' w)), w)"

definition getAdIcons :: "'a ad_scheme \<Rightarrow> string completion \<times> 'a ad_scheme" where
  "getAdIcons w = (Return (icons (attributes_' w)), w)"

definition getAdLinear :: "'a ad_scheme \<Rightarrow> bool completion \<times> 'a ad_scheme" where
  "getAdLinear w = (Return (linear_attr (attributes_' w)), w)"

text \<open>\<open>this.slot_.appendChild(img)\<close>, the image carrying the click listener added next.\<close>

definition slotAppendChild :: "img \<Rightarrow> 'a ad_scheme \<Rightarrow> unit completion \<times> 'a ad_scheme" where
  "slotAppendChild child w =
     (case slot_' w of
        Obj s \<Rightarrow> (Return (), w\<lparr>slot_' := Obj (s\<lparr>children := children s @ [child]\<rparr>)\<rparr>)
      | Null \<Rightarrow> (Throw TypeError, w)
      | Undefined \<Rightarrow> (Throw TypeError, w))"

text \<open>\<open>while (this.slot_.firstChild) this.slot_.removeChild(this.slot_.firstChild);\<close>\<close>

fun removeChildren :: "img list \<Rightarrow> img list" where
  "removeChildren [] = []"
| "removeChildren (firstChild # rest) = removeChildren rest"

definition clearSlot :: "'a ad_scheme \<Rightarrow> unit completion \<times> 'a ad_scheme" where
  "clearSlot w =
     (case slot_' w of
        Obj s \<Rightarrow> (Return (), w\<lparr>slot_' := Obj (s\<lparr>children := removeChildren (children s)\<rparr>)\<rparr>)
      | Null \<Rightarrow> (Throw TypeError, w)
      | Undefined \<Rightarrow> (Throw TypeError, w))"

text \<open>\<open>xs[i] || ''\<close> on a list of strings.\<close>

definition orEmpty :: "string list \<Rightarrow> nat \<Rightarrow> string" where
  "orEmpty xs i = (if i < length xs then xs ! i else '''')"

text \<open>\<open>x || []\<close> on a property that is an array or missing.\<close>

definition orNil :: "'x list option \<Rightarrow> 'x list" where
  "orNil x = (case x of None \<Rightarrow> [] | Some xs \<Rightarrow> xs)"

subsection \<open>Methods of \<open>src/vpaid/VpaidNonLinear.js\<close>\<close>

definition IMG_CSS :: string where
  "IMG_CSS = concat (map (\<lambda>l. l @ [CHR 0x0A])
     [''.animatedImg {'', ''-webkit-animation-duration: 4s;'',
      ''-webkit-animation-name: slidein;'', ''position: absolute;'', ''bottom: 5px;'',
      ''left: 25%;'', ''}'', ''@-webkit-keyframes slidein {'', ''from {'',
      ''bottom: 200px;'', ''left: 0%;'', ''}'', ''to {'', ''bottom: 5px;'',
      ''left: 25%;'', ''}'']) @ ''}''"

definition initAd ::
  "jsval \<Rightarrow> jsval \<Rightarrow> jsval \<Rightarrow> jsval \<Rightarrow> creativeData \<Rightarrow> environmentVars \<Rightarrow> vpaid
     \<Rightarrow> unit completion \<times> vpaid" where
  "initAd aWidth aHeight aViewMode aBitrate creative env w =
     (let w1 = w\<lparr>attributes_' := (attributes_' w)\<lparr>width := aWidth, height := aHeight,
                  viewMode := aViewMode, desiredBitrate := aBitrate\<rparr>,
                slot_' := slot env, videoSlot_' := videoSlot env\<rparr>
      in case AdParameters creative of
           SyntaxErr \<Rightarrow> (Throw SyntaxError, w1)
         | JsonNull \<Rightarrow> (Throw TypeError, w1)
         | Json data \<Rightarrow>
             (let w2 = w1\<lparr>imageUrls_' := orNil (overlays data),
                          videos_' := orNil (videos data)\<rparr>;
                  w3 = log_js [Txt ''initAd '', Val aWidth, Txt ''x'', Val aHeight, Txt '' '',
                         Val aViewMode, Txt '' '', Val aBitrate] w2
              in callEvent_' ''AdLoaded'' w3))"

definition updateVideoPlayerSize_' :: "'a ad_scheme \<Rightarrow> unit completion \<times> 'a ad_scheme" where
  "updateVideoPlayerSize_' =
     andThen (\<lambda>w. videoSlotCall (SetAttribute ''width'' (width (attributes_' w))) w)
             (\<lambda>w. videoSlotCall (SetAttribute ''height'' (height (attributes_' w))) w)"

definition overlayOnClick_' :: "'a ad_scheme \<Rightarrow> unit completion \<times> 'a ad_scheme" where
  "overlayOnClick_' =
     andThen (callEvent_' ''AdClickThru'')
       (\<lambda>w. callEvent_' ''AdRemainingTimeChange''
          (w\<lparr>attributes_' := (attributes_' w)\<lparr>duration := duration (attributes_' w) + 10\<rparr>\<rparr>))"

text \<open>
  The loop of \<open>overlay2OnClick_\<close> over \<open>this.videos_\<close>: it stops at the first entry the
  video element can play and returns \<open>foundSource\<close>.
\<close>

fun chooseVideo :: "video list \<Rightarrow> 'a ad_scheme \<Rightarrow> bool completion \<times> 'a ad_scheme" where
  "chooseVideo [] w = (Return False, w)"
| "chooseVideo (v # rest) w =
     (case videoSlot_' w of
        Obj el \<Rightarrow>
          if canPlayType el (mimetype v) \<noteq> ''''
          then (Return True,
                w\<lparr>videoSlot_' := Obj (el\<lparr>calls := calls el @
                     [SetAttribute ''src'' (JStr (url v))]\<rparr>)\<rparr>)
          else chooseVideo rest w
      | Null \<Rightarrow> (Throw TypeError, w)
      | Undefined \<Rightarrow> (Throw TypeError, w))"

definition overlay2OnClick_' :: "vpaid \<Rightarrow> unit completion \<times> vpaid" where
  "overlay2OnClick_' w =
     andThen (callEvent_' ''AdLinearChange'')
       (andThen clearSlot
          (\<lambda>w2. case chooseVideo (videos_' w2) w2 of
                   (Throw e, w3) \<Rightarrow> (Throw e, w3)
                 | (Return foundSource, w3) \<Rightarrow>
                     andThen (\<lambda>w4. if foundSource then (Return (), w4)
                                    else callEvent_' ''AdError'' w4)
                       (andThen (videoSlotCall (AddEventListener ''ended''))
                          (videoSlotCall Play)) w3))
       (w\<lparr>attributes_' := (attributes_' w)\<lparr>linear_attr := True\<rparr>\<rparr>)"

text \<open>
  The style element gets \<open>IMG_CSS\<close> on either branch of the \<open>styleSheet\<close> test and is
  appended to \<open>document.head\<close>.
\<close>

definition startAd :: "vpaid \<Rightarrow> unit completion \<times> vpaid" where
  "startAd w =
     (let w1 = log_js [Txt ''Starting ad''] w;
          w2 = w1\<lparr>head := head w1 @ [IMG_CSS]\<rparr>;
          w3 = w2\<lparr>startTime_' := now w2\<rparr>
      in andThen
           (slotAppendChild \<lparr>src = orEmpty (imageUrls_' w3) 0, classList = [''animatedImg''],
              onclick = FirstOverlay\<rparr>)
           (andThen
              (slotAppendChild \<lparr>src = orEmpty (imageUrls_' w3) 1, classList = [],
                 onclick = SecondOverlay\<rparr>)
              (callEvent_' ''AdStarted'')) w3)"

definition resizeAd :: "jsval \<Rightarrow> jsval \<Rightarrow> jsval \<Rightarrow> 'a ad_scheme \<Rightarrow> unit completion \<times> 'a ad_scheme" where
  "resizeAd aWidth aHeight aViewMode w =
     (let w1 = log_js [Txt ''resizeAd '', Val aWidth, Txt ''x'', Val aHeight, Txt '' '',
                 Val aViewMode] w;
          w2 = w1\<lparr>attributes_' := (attributes_' w1)\<lparr>width := aWidth, height := aHeight,
                  viewMode := aViewMode\<rparr>\<rparr>
      in andThen updateVideoPlayerSize_' (callEvent_' ''AdSizeChange'') w2)"

definition resumeAd :: "'a ad_scheme \<Rightarrow> unit completion \<times> 'a ad_scheme" where
  "resumeAd w =
     andThen (videoSlotCall Play) (callEvent_' ''AdResumed'') (log_js [Txt ''resumeAd''] w)"

text \<open>
  \<open>if (elem.requestFullscreen) elem.requestFullscreen();\<close> reads the global \<open>elem\<close>: a
  ReferenceError when the page declares none, a TypeError when it is \<open>null\<close> or
  \<open>undefined\<close>. The flag is already set by then.
\<close>

definition expandAd :: "'a ad_scheme \<Rightarrow> unit completion \<times> 'a ad_scheme" where
  "expandAd w =
     (let w1 = log_js [Txt ''expandAd''] w;
          w2 = w1\<lparr>attributes_' := (attributes_' w1)\<lparr>expanded := True\<rparr>\<rparr>
      in case elem w2 of
           Undeclared \<Rightarrow> (Throw ReferenceError, w2)
         | Nullish \<Rightarrow> (Throw TypeError, w2)
         | Element hasRequestFullscreen \<Rightarrow>
             callEvent_' ''AdExpanded''
               (if hasRequestFullscreen then w2\<lparr>fullscreen := Suc (fullscreen w2)\<rparr> else w2))"

definition subscribe ::
  "callback \<Rightarrow> string \<Rightarrow> thisArg \<Rightarrow> 'a ad_scheme \<Rightarrow> unit completion \<times> 'a ad_scheme" where
  "subscribe aCallback eventName aContext w =
     (let w1 = log_js [Txt ''Subscribe '', Fun aCallback] w;
          callBack = BoundFn aCallback aContext
      in (Return (), w1\<lparr>eventsCallbacks_' := (eventsCallbacks_' w1)(eventName \<mapsto> callBack)\<rparr>))"

subsection \<open>Methods of \<open>src/unnamed/part_000\<close>\<close>

text \<open>The parsed parameters are kept whole; \<open>null\<close> is kept too and throws when read later.\<close>

definition initAd_p0 ::
  "jsval \<Rightarrow> jsval \<Rightarrow> jsval \<Rightarrow> jsval \<Rightarrow> creativeData \<Rightarrow> environmentVars \<Rightarrow> vpaid_p0
     \<Rightarrow> unit completion \<times> vpaid_p0" where
  "initAd_p0 aWidth aHeight aViewMode aBitrate creative env w =
     (let w1 = w\<lparr>attributes_' := (attributes_' w)\<lparr>width := aWidth, height := aHeight,
                  viewMode := aViewMode, desiredBitrate := aBitrate\<rparr>,
                slot_' := slot env, videoSlot_' := videoSlot env\<rparr>;
          message = [Txt ''initAd '', Val aWidth, Txt ''x'', Val aHeight, Txt '' '',
                     Val aViewMode, Txt '' '', Val aBitrate]
      in case AdParameters creative of
           SyntaxErr \<Rightarrow> (Throw SyntaxError, w1)
         | JsonNull \<Rightarrow> callEvent_' ''AdLoaded'' (log_js message (w1\<lparr>parameters_' := Null\<rparr>))
         | Json data \<Rightarrow>
             callEvent_' ''AdLoaded'' (log_js message (w1\<lparr>parameters_' := Obj data\<rparr>)))"

definition startAd_p0 :: "vpaid_p0 \<Rightarrow> unit completion \<times> vpaid_p0" where
  "startAd_p0 w =
     (let w1 = log_js [Txt ''Starting ad''] w;
          w2 = w1\<lparr>startTime_' := now w1\<rparr>
      in case parameters_' w2 of
           Obj p \<Rightarrow>
             (let overlayUrls = orNil (overlays p)
              in andThen
                   (slotAppendChild \<lparr>src = orEmpty overlayUrls 0, classList = [],
                      onclick = FirstOverlay\<rparr>)
                   (andThen
                      (slotAppendChild \<lparr>src = orEmpty overlayUrls 1, classList = [],
                         onclick = SecondOverlay\<rparr>)
                      (callEvent_' ''AdStarted'')) w2)
         | Null \<Rightarrow> (Throw TypeError, w2)
         | Undefined \<Rightarrow> (Throw TypeError, w2))"

text \<open>The callback is called directly, with three arguments, not through \<open>callEvent_\<close>.\<close>

definition nonLinearAdClick :: "'a ad_scheme \<Rightarrow> unit completion \<times> 'a ad_scheme" where
  "nonLinearAdClick w =
     (case eventsCallbacks_' w ''AdClickThru'' of
        None \<Rightarrow> (Return (), w)
      | Some NullSlot \<Rightarrow> (Throw TypeError, w)
      | Some (BoundFn f c) \<Rightarrow>
          (Return (), w\<lparr>events := events w @ [Invoked f c [JStr '''', JStr ''0'', JBool True]]\<rparr>))"

text \<open>
  The loop of \<open>linearButtonClick\<close> over \<open>videos\<close>: the body has no \<open>break\<close> and no
  \<open>return\<close>, so it goes on to the end of the list after an entry that can be played.
\<close>

fun playVideos :: "video list \<Rightarrow> 'a ad_scheme \<Rightarrow> unit completion \<times> 'a ad_scheme" where
  "playVideos [] w = (Return (), w)"
| "playVideos (v # rest) w =
     (case videoSlot_' w of
        Obj el \<Rightarrow>
          if canPlayType el (mimetype v) \<noteq> ''''
          then playVideos rest
                 (w\<lparr>videoSlot_' := Obj (el\<lparr>calls := calls el @
                      [SetAttribute ''src'' (JStr (url v)), AddEventListener ''ended'',
                       Play]\<rparr>)\<rparr>)
          else playVideos rest w
      | Null \<Rightarrow> (Throw TypeError, w)
      | Undefined \<Rightarrow> (Throw TypeError, w))"

definition linearButtonClick :: "vpaid_p0 \<Rightarrow> unit completion \<times> vpaid_p0" where
  "linearButtonClick w =
     andThen (callEvent_' ''AdLinearChange'')
       (andThen clearSlot
          (\<lambda>w2. case parameters_' w2 of
                   Obj p \<Rightarrow>
                     andThen (playVideos (orNil (videos p))) (callEvent_' ''AdError'') w2
                 | Null \<Rightarrow> (Throw TypeError, w2)
                 | Undefined \<Rightarrow> (Throw TypeError, w2)))
       (w\<lparr>attributes_' := (attributes_' w)\<lparr>linear_attr := True\<rparr>\<rparr>)"

text \<open>
  \<open>this.updateVideoPlayerSize_()\<close> is called, but this file defines no such method:
  calling \<open>undefined\<close> is a TypeError, after the three attributes are set.
\<close>

definition resizeAd_p0 ::
  "jsval \<Rightarrow> jsval \<Rightarrow> jsval \<Rightarrow> 'a ad_scheme \<Rightarrow> unit completion \<times> 'a ad_scheme" where
  "resizeAd_p0 aWidth aHeight aViewMode w =
     (let w1 = log_js [Txt ''resizeAd '', Val aWidth, Txt ''x'', Val aHeight, Txt '' '',
                 Val aViewMode] w;
          w2 = w1\<lparr>attributes_' := (attributes_' w1)\<lparr>width := aWidth, height := aHeight,
                  viewMode := aViewMode\<rparr>\<rparr>
      in (Throw TypeError, w2))"

definition resumeAd_p0 :: "'a ad_scheme \<Rightarrow> unit completion \<times> 'a ad_scheme" where
  "resumeAd_p0 w =
     andThen (videoSlotCall Play) (callEvent_' ''AdPlaying'') (log_js [Txt ''resumeAd''] w)"

definition expandAd_p0 :: "'a ad_scheme \<Rightarrow> unit completion \<times> 'a ad_scheme" where
  "expandAd_p0 w =
     (let w1 = log_js [Txt ''expandAd''] w;
          w2 = w1\<lparr>attributes_' := (attributes_' w1)\<lparr>expanded := True\<rparr>\<rparr>
      in callEvent_' ''AdExpanded'' w2)"

definition subscribe_p0 ::
  "callback \<Rightarrow> string \<Rightarrow> thisArg \<Rightarrow> 'a ad_scheme \<Rightarrow> unit completion \<times> 'a ad_scheme" where
  "subscribe_p0 aCallback eventName aContext w =
     (let w1 = log_js [Txt ''Subscribe '', Val (JStr eventName)] w;
          callBack = BoundFn aCallback aContext
      in (Return (), w1\<lparr>eventsCallbacks_' := (eventsCallbacks_' w1)(eventName \<mapsto> callBack)\<rparr>))"

subsection \<open>What the page does to the ad\<close>

text \<open>
  The timer of \<open>stopAd\<close> passes an array where \<open>callEvent_\<close> expects a string; \<open>in\<close> and the
  subscript turn it into a property name, its elements joined by commas.
\<close>

fun propertyKey :: "string list \<Rightarrow> string" where
  "propertyKey [] = ''''"
| "propertyKey [x] = x"
| "propertyKey (x # y # ys) = x @ '','' @ propertyKey (y # ys)"

text \<open>The oldest pending timer runs once its delay has passed; a timer runs once.\<close>

definition timerFires :: "'a ad_scheme \<Rightarrow> unit completion \<times> 'a ad_scheme" where
  "timerFires w =
     (case timers w of
        [] \<Rightarrow> (Return (), w)
      | t # rest \<Rightarrow>
          if setAt t + real (delay t) \<le> now w
          then callEvent_' (propertyKey (args t)) (w\<lparr>timers := rest\<rparr>)
          else (Return (), w))"

definition tick :: "nat \<Rightarrow> 'a ad_scheme \<Rightarrow> 'a ad_scheme" where
  "tick ms w = w\<lparr>now := now w + real ms\<rparr>"

text \<open>
  The video element's \<open>ended\<close> event runs every listener added for it, each of them
  \<open>stopAd\<close> bound to the ad.
\<close>

fun stopAdTimes :: "nat \<Rightarrow> 'a ad_scheme \<Rightarrow> 'a ad_scheme" where
  "stopAdTimes 0 w = w"
| "stopAdTimes (Suc n) w = stopAdTimes n (snd (stopAd w))"

definition videoEnded :: "'a ad_scheme \<Rightarrow> 'a ad_scheme" where
  "videoEnded w =
     (case videoSlot_' w of
        Obj el \<Rightarrow> stopAdTimes (length (filter (\<lambda>c. c = AddEventListener ''ended'') (calls el))) w
      | Null \<Rightarrow> w
      | Undefined \<Rightarrow> w)"

text \<open>A click on the \<open>i\<close>-th image of the slot runs the listener \<open>startAd\<close> gave it.\<close>

definition click :: "nat \<Rightarrow> vpaid \<Rightarrow> unit completion \<times> vpaid" where
  "click i w =
     (case slot_' w of
        Obj s \<Rightarrow>
          if i < length (children s)
          then (case onclick (children s ! i) of
                  FirstOverlay \<Rightarrow> overlayOnClick_' w
                | SecondOverlay \<Rightarrow> overlay2OnClick_' w)
          else (Return (), w)
      | Null \<Rightarrow> (Return (), w)
      | Undefined \<Rightarrow> (Return (), w))"

definition click_p0 :: "nat \<Rightarrow> vpaid_p0 \<Rightarrow> unit completion \<times> vpaid_p0" where
  "click_p0 i w =
     (case slot_' w of
        Obj s \<Rightarrow>
          if i < length (children s)
          then (case onclick (children s ! i) of
                  FirstOverlay \<Rightarrow> nonLinearAdClick w
                | SecondOverlay \<Rightarrow> linearButtonClick w)
          else (Return (), w)
      | Null \<Rightarrow> (Return (), w)
      | Undefined \<Rightarrow> (Return (), w))"

text \<open>
  One thing that happens to the ad: a call of a public method by the player, a click, the
  end of the video, a timer, or time passing. A throw ends the call, not the page: the
  next call finds the world the throw left.
\<close>

datatype call =
    HandshakeVersion string
  | InitAd jsval jsval jsval jsval creativeData environmentVars
  | StartAd
  | StopAd
  | SetAdVolume jsval
  | GetAdVolume
  | ResizeAd jsval jsval jsval
  | PauseAd
  | ResumeAd
  | ExpandAd
  | GetAdExpanded
  | GetAdSkippableState
  | CollapseAd
  | SkipAd
  | Subscribe callback string thisArg
  | Unsubscribe string
  | GetAdWidth
  | GetAdHeight
  | GetAdRemainingTime
  | GetAdDuration
  | GetAdCompanions
  | GetAdIcons
  | GetAdLinear
  | Click nat
  | VideoEnded
  | TimerFires
  | Tick nat

fun step :: "call \<Rightarrow> vpaid \<Rightarrow> vpaid" where
  "step (HandshakeVersion v) w = snd (handshakeVersion v w)"
| "step (InitAd a b c d e f) w = snd (initAd a b c d e f w)"
| "step StartAd w = snd (startAd w)"
| "step StopAd w = snd (stopAd w)"
| "step (SetAdVolume v) w = snd (setAdVolume v w)"
| "step GetAdVolume w = snd (getAdVolume w)"
| "step (ResizeAd a b c) w = snd (resizeAd a b c w)"
| "step PauseAd w = snd (pauseAd w)"
| "step ResumeAd w = snd (resumeAd w)"
| "step ExpandAd w = snd (expandAd w)"
| "step GetAdExpanded w = snd (getAdExpanded w)"
| "step GetAdSkippableState w = snd (getAdSkippableState w)"
| "step CollapseAd w = snd (collapseAd w)"
| "step SkipAd w = snd (skipAd w)"
| "step (Subscribe f e c) w = snd (subscribe f e c w)"
| "step (Unsubscribe e) w = snd (unsubscribe e w)"
| "step GetAdWidth w = snd (getAdWidth w)"
| "step GetAdHeight w = snd (getAdHeight w)"
| "step GetAdRemainingTime w = snd (getAdRemainingTime w)"
| "step GetAdDuration w = snd (getAdDuration w)"
| "step GetAdCompanions w = snd (getAdCompanions w)"
| "step GetAdIcons w = snd (getAdIcons w)"
| "step GetAdLinear w = snd (getAdLinear w)"
| "step (Click i) w = snd (click i w)"
| "step VideoEnded w = videoEnded w"
| "step TimerFires w = snd (timerFires w)"
| "step (Tick ms) w = tick ms w"

fun step_p0 :: "call \<Rightarrow> vpaid_p0 \<Rightarrow> vpaid_p0" where
  "step_p0 (HandshakeVersion v) w = snd (handshakeVersion v w)"
| "step_p0 (InitAd a b c d e f) w = snd (initAd_p0 a b c d e f w)"
| "step_p0 StartAd w = snd (startAd_p0 w)"
| "step_p0 StopAd w = snd (stopAd w)"
| "step_p0 (SetAdVolume v) w = snd (setAdVolume v w)"
| "step_p0 GetAdVolume w = snd (getAdVolume w)"
| "step_p0 (ResizeAd a b c) w = snd (resizeAd_p0 a b c w)"
| "step_p0 PauseAd w = snd (pauseAd w)"
| "step_p0 ResumeAd w = snd (resumeAd_p0 w)"
| "step_p0 ExpandAd w = snd (expandAd_p0 w)"
| "step_p0 GetAdExpanded w = snd (getAdExpanded w)"
| "step_p0 GetAdSkippableState w = snd (getAdSkippableState w)"
| "step_p0 CollapseAd w = snd (collapseAd w)"
| "step_p0 SkipAd w = snd (skipAd w)"
| "step_p0 (Subscribe f e c) w = snd (subscribe_p0 f e c w)"
| "step_p0 (Unsubscribe e) w = snd (unsubscribe e w)"
| "step_p0 GetAdWidth w = snd (getAdWidth w)"
| "step_p0 GetAdHeight w = snd (getAdHeight w)"
| "step_p0 GetAdRemainingTime w = snd (getAdRemainingTime w)"
| "step_p0 GetAdDuration w = snd (getAdDuration w)"
| "step_p0 GetAdCompanions w = snd (getAdCompanions w)"
| "step_p0 GetAdIcons w = snd (getAdIcons w)"
| "step_p0 GetAdLinear w = snd (getAdLinear w)"
| "step_p0 (Click i) w = snd (click_p0 i w)"
| "step_p0 VideoEnded w = videoEnded w"
| "step_p0 TimerFires w = snd (timerFires w)"
| "step_p0 (Tick ms) w = tick ms w"

fun run :: "call list \<Rightarrow> vpaid \<Rightarrow> vpaid" where
  "run [] w = w"
| "run (c # cs) w = run cs (step c w)"

fun run_p0 :: "call list \<Rightarrow> vpaid_p0 \<Rightarrow> vpaid_p0" where
  "run_p0 [] w = w"
| "run_p0 (c # cs) w = run_p0 cs (step_p0 c w)"

subsection \<open>Registrations in a row, and a sample page\<close>

text \<open>A list of \<open>subscribe\<close> calls, each given as (callback, event name, context).\<close>

fun subscribeAll :: "(callback \<times> string \<times> thisArg) list \<Rightarrow> 'a ad_scheme \<Rightarrow> 'a ad_scheme" where
  "subscribeAll [] w = w"
| "subscribeAll ((f, e, c) # rest) w = subscribeAll rest (snd (subscribe f e c w))"

fun subscribeAll_p0 :: "(callback \<times> string \<times> thisArg) list \<Rightarrow> 'a ad_scheme \<Rightarrow> 'a ad_scheme" where
  "subscribeAll_p0 [] w = w"
| "subscribeAll_p0 ((f, e, c) # rest) w = subscribeAll_p0 rest (snd (subscribe_p0 f e c w))"

text \<open>The calls the ad has made on its video element.\<close>

definition videoCalls :: "'a ad_scheme \<Rightarrow> videoCall list" where
  "videoCalls w = (case videoSlot_' w of Obj el \<Rightarrow> calls el | Null \<Rightarrow> [] | Undefined \<Rightarrow> [])"

text \<open>
  A page whose video element plays MP4 and WebM, an empty slot, and a creative with two
  overlays and two videos; \<open>started\<close> and \<open>started_p0\<close> are the two ads after \<open>initAd\<close>
  and \<open>startAd\<close> on it.
\<close>

definition canPlayMp4Webm :: "string \<Rightarrow> string" where
  "canPlayMp4Webm m = (if m = ''video/mp4'' \<or> m = ''video/webm'' then ''probably'' else '''')"

definition sampleEnv :: environmentVars where
  "sampleEnv = \<lparr>slot = Obj \<lparr>children = []\<rparr>,
     videoSlot = Obj \<lparr>canPlayType = canPlayMp4Webm, calls = []\<rparr>\<rparr>"

definition sampleCreative :: creativeData where
  "sampleCreative = \<lparr>AdParameters = Json \<lparr>overlays = Some [''a.png'', ''b.png''],
     videos = Some [\<lparr>url = ''a.mp4'', mimetype = ''video/mp4''\<rparr>,
                    \<lparr>url = ''b.webm'', mimetype = ''video/webm''\<rparr>]\<rparr>\<rparr>"

definition started :: vpaid where
  "started = run [InitAd (JNum 640) (JNum 360) (JStr ''normal'') (JNum 256) sampleCreative
     sampleEnv, StartAd] (VpaidNonLinear (page 0 Undeclared))"

definition started_p0 :: vpaid_p0 where
  "started_p0 = run_p0 [InitAd (JNum 640) (JNum 360) (JStr ''normal'') (JNum 256)
     sampleCreative sampleEnv, StartAd] (VpaidNonLinear_p0 (page 0 Undeclared))"

subsection \<open>Two invariants of the event history\<close>

text \<open>
  The ad cannot be skipped and has not emitted \<open>AdSkipped\<close>, and every pending timer
  is one of \<open>stopAd\<close>.
\<close>

definition neverSkipped :: "'a ad_scheme \<Rightarrow> bool" where
  "neverSkipped w = (\<not> skippableState (attributes_' w)
     \<and> CallEvent ''AdSkipped'' \<notin> set (events w)
     \<and> list_all (\<lambda>t. args t = [''AdStopped'']) (timers w))"

text \<open>The event history still starts with the events \<open>es\<close>.\<close>

definition keepsEvents :: "effect list \<Rightarrow> 'a ad_scheme \<Rightarrow> bool" where
  "keepsEvents es w = prefix es (events w)"

section \<open>Properties\<close>

lemmas seq_defs = callEvent_'_def log_js_def andThen_def Let_def videoSlotCall_def
  slotAppendChild_def clearSlot_def orEmpty_def orNil_def

lemmas sample_defs = started_def started_p0_def sampleEnv_def sampleCreative_def
  canPlayMp4Webm_def page_def VpaidNonLinear_def VpaidNonLinear_p0_def initAd_def
  initAd_p0_def startAd_def startAd_p0_def

subsection \<open>The dispatcher after \<open>unsubscribe\<close>\<close>

text \<open>
  \<open>unsubscribe\<close> leaves the name in \<open>eventsCallbacks_\<close> with the value \<open>null\<close>, and
  \<open>callEvent_\<close> tests only that the name is there: for every such event name and
  every world, the next emission of that event calls no callback and throws a TypeError.
\<close>

lemma callEvent_after_unsubscribe:
  "callEvent_' e (snd (unsubscribe e w)) =
     (Throw TypeError, (snd (unsubscribe e w))\<lparr>events := events w @ [CallEvent e]\<rparr>)"
  by (simp add: callEvent_'_def unsubscribe_def log_js_def Let_def)

text \<open>
  C1. Emitting an event after \<open>unsubscribe\<close> of its name is specified as a silent
  no-op that calls no callback. The code calls none, but it is not silent: on a new ad
  of either file, \<open>subscribe(f, 'AdVolumeChange', c)\<close>, then
  \<open>unsubscribe('AdVolumeChange')\<close>, then \<open>setAdVolume(5)\<close>: the emission of
  \<open>AdVolumeChange\<close> inside \<open>setAdVolume\<close> throws a TypeError.
\<close>

theorem unsubscribe_then_emit_throws:
  "fst (setAdVolume (JNum 5) (snd (unsubscribe ''AdVolumeChange''
          (snd (subscribe (Callback 1) ''AdVolumeChange'' (Context 1)
             (VpaidNonLinear (page 0 Undeclared))))))) = Throw TypeError
   \<and> events (snd (setAdVolume (JNum 5) (snd (unsubscribe ''AdVolumeChange''
          (snd (subscribe (Callback 1) ''AdVolumeChange'' (Context 1)
             (VpaidNonLinear (page 0 Undeclared)))))))) = [CallEvent ''AdVolumeChange'']
   \<and> fst (setAdVolume (JNum 5) (snd (unsubscribe ''AdVolumeChange''
          (snd (subscribe_p0 (Callback 1) ''AdVolumeChange'' (Context 1)
             (VpaidNonLinear_p0 (page 0 Undeclared))))))) = Throw TypeError
   \<and> events (snd (setAdVolume (JNum 5) (snd (unsubscribe ''AdVolumeChange''
          (snd (subscribe_p0 (Callback 1) ''AdVolumeChange'' (Context 1)
             (VpaidNonLinear_p0 (page 0 Undeclared)))))))) = [CallEvent ''AdVolumeChange'']"
  by (simp add: setAdVolume_def unsubscribe_def subscribe_def subscribe_p0_def seq_defs
      VpaidNonLinear_def VpaidNonLinear_p0_def page_def)

subsection \<open>The second overlay click\<close>

text \<open>
  In \<open>src/vpaid/VpaidNonLinear.js\<close> the loop stops at the first playable entry. With
  a slot, a video element and \<open>AdLinearChange\<close> not unsubscribed, \<open>overlay2OnClick_\<close>
  sets the source to that entry's url only and emits no \<open>AdError\<close>; when no entry is
  playable it sets no source and emits \<open>AdError\<close>.
\<close>

lemma chooseVideo_find:
  "videoSlot_' w = Obj el \<Longrightarrow>
     chooseVideo vs w =
       (case find (\<lambda>v. canPlayType el (mimetype v) \<noteq> '''') vs of
          None \<Rightarrow> (Return False, w)
        | Some v \<Rightarrow> (Return True, w\<lparr>videoSlot_' := Obj (el\<lparr>calls := calls el @
                       [SetAttribute ''src'' (JStr (url v))]\<rparr>)\<rparr>))"
  by (induction vs) auto

lemma overlay2OnClick_playable:
  assumes "slot_' w = Obj s" and "videoSlot_' w = Obj el"
    and "eventsCallbacks_' w ''AdLinearChange'' \<noteq> Some NullSlot"
    and "find (\<lambda>v. canPlayType el (mimetype v) \<noteq> '''') (videos_' w) = Some v"
  shows "fst (overlay2OnClick_' w) = Return ()
    \<and> videoCalls (snd (overlay2OnClick_' w)) =
        calls el @ [SetAttribute ''src'' (JStr (url v)), AddEventListener ''ended'', Play]
    \<and> CallEvent ''AdError'' \<notin> set (emitted w (snd (overlay2OnClick_' w)))"
  using assms
  by (auto simp: overlay2OnClick_'_def chooseVideo_find videoCalls_def emitted_def seq_defs
      split: option.splits cbslot.splits)

lemma overlay2OnClick_unplayable:
  assumes "slot_' w = Obj s" and "videoSlot_' w = Obj el"
    and "eventsCallbacks_' w ''AdLinearChange'' \<noteq> Some NullSlot"
    and "find (\<lambda>v. canPlayType el (mimetype v) \<noteq> '''') (videos_' w) = None"
  shows "CallEvent ''AdError'' \<in> set (emitted w (snd (overlay2OnClick_' w)))
    \<and> SetAttribute ''src'' u \<notin> set (videoCalls (snd (overlay2OnClick_' w))) - set (calls el)"
  using assms
  by (auto simp: overlay2OnClick_'_def chooseVideo_find videoCalls_def emitted_def seq_defs
      split: option.splits cbslot.splits)

text \<open>
  C2. The second overlay click is specified to emit \<open>AdError\<close> exactly when no video
  can be played. In \<open>src/unnamed/part_000\<close> the emission follows the loop on every path: on
  the sample page, whose first video is playable, the click on the second image runs
  \<open>linearButtonClick\<close>, which returns normally and emits \<open>AdLinearChange\<close> and then
  \<open>AdError\<close>.
\<close>

theorem linearButtonClick_error_with_playable_video:
  "canPlayMp4Webm ''video/mp4'' \<noteq> ''''
   \<and> parameters_' started_p0 = Obj \<lparr>overlays = Some [''a.png'', ''b.png''],
        videos = Some [\<lparr>url = ''a.mp4'', mimetype = ''video/mp4''\<rparr>,
                       \<lparr>url = ''b.webm'', mimetype = ''video/webm''\<rparr>]\<rparr>
   \<and> click_p0 1 started_p0 = linearButtonClick started_p0
   \<and> fst (linearButtonClick started_p0) = Return ()
   \<and> emitted started_p0 (snd (linearButtonClick started_p0)) =
        [CallEvent ''AdLinearChange'', CallEvent ''AdError'']"
  by (simp add: sample_defs click_p0_def linearButtonClick_def emitted_def seq_defs)

text \<open>
  C3. The second overlay click is specified to set the source to the first playable
  video and to no later one. The loop of \<open>linearButtonClick\<close> in
  \<open>src/unnamed/part_000\<close> does not stop at a
  match: on the sample page, whose two videos are both playable, it sets the source to
  the first url, then to the second, and starts playback twice.
\<close>

theorem linearButtonClick_sets_later_source:
  "videoCalls started_p0 = []
   \<and> videoCalls (snd (linearButtonClick started_p0)) =
       [SetAttribute ''src'' (JStr ''a.mp4''), AddEventListener ''ended'', Play,
        SetAttribute ''src'' (JStr ''b.webm''), AddEventListener ''ended'', Play]"
  by (simp add: sample_defs videoCalls_def linearButtonClick_def seq_defs)

subsection \<open>Expanding and collapsing\<close>

text \<open>
  In \<open>src/unnamed/part_000\<close>, \<open>expandAd\<close> sets the flag and emits \<open>AdExpanded\<close>; it returns
  normally unless the name was unsubscribed. \<open>expandAd\<close> of
  \<open>src/vpaid/VpaidNonLinear.js\<close> does the same on a page whose global \<open>elem\<close> is an
  object. In both files \<open>collapseAd\<close> clears the flag, emits nothing and returns normally.
\<close>

lemma expandAd_with_elem:
  "elem w = Element b \<Longrightarrow> eventsCallbacks_' w ''AdExpanded'' \<noteq> Some NullSlot \<Longrightarrow>
     fst (expandAd w) = Return ()
     \<and> expanded (attributes_' (snd (expandAd w)))
     \<and> hd (emitted w (snd (expandAd w))) = CallEvent ''AdExpanded''"
  by (simp add: expandAd_def emitted_def seq_defs split: option.splits cbslot.splits)

lemma expandAd_p0_emits:
  "eventsCallbacks_' w ''AdExpanded'' \<noteq> Some NullSlot \<Longrightarrow>
     fst (expandAd_p0 w) = Return ()
     \<and> expanded (attributes_' (snd (expandAd_p0 w)))
     \<and> hd (emitted w (snd (expandAd_p0 w))) = CallEvent ''AdExpanded''"
  by (simp add: expandAd_p0_def emitted_def seq_defs split: option.splits cbslot.splits)

lemma collapseAd_silent:
  "fst (collapseAd w) = Return () \<and> \<not> expanded (attributes_' (snd (collapseAd w)))
     \<and> emitted w (snd (collapseAd w)) = []"
  by (simp add: collapseAd_def emitted_def seq_defs)

text \<open>
  C4. \<open>expandAd\<close> is specified to set the flag, emit \<open>AdExpanded\<close> and complete
  normally. \<open>expandAd\<close> of \<open>src/vpaid/VpaidNonLinear.js\<close> reads a variable \<open>elem\<close> that
  the file never declares: on a page with no global of that name, the call on a new ad
  sets the flag, then throws a ReferenceError, and emits nothing.
\<close>

theorem expandAd_throws_on_undeclared_elem:
  "fst (expandAd (VpaidNonLinear (page 0 Undeclared))) = Throw ReferenceError
   \<and> emitted (VpaidNonLinear (page 0 Undeclared))
        (snd (expandAd (VpaidNonLinear (page 0 Undeclared)))) = []
   \<and> expanded (attributes_' (snd (expandAd (VpaidNonLinear (page 0 Undeclared)))))"
  by (simp add: expandAd_def VpaidNonLinear_def page_def emitted_def seq_defs)

subsection \<open>Size, skipping\<close>

text \<open>
  C6. For every width and height (any value, negative numbers included), after
  \<open>initAd\<close> of either file \<open>getAdWidth\<close> and \<open>getAdHeight\<close> return the values passed in,
  unchanged; this holds also when \<open>initAd\<close> throws later on, since the two attributes
  are its first assignments.
\<close>

theorem initAd_then_size_getters:
  "fst (getAdWidth (snd (initAd aWidth aHeight aViewMode aBitrate creative env w))) =
     Return aWidth
   \<and> fst (getAdHeight (snd (initAd aWidth aHeight aViewMode aBitrate creative env w))) =
     Return aHeight
   \<and> fst (getAdWidth (snd (initAd_p0 aWidth aHeight aViewMode aBitrate creative env w0))) =
     Return aWidth
   \<and> fst (getAdHeight (snd (initAd_p0 aWidth aHeight aViewMode aBitrate creative env w0))) =
     Return aHeight"
  by (simp add: getAdWidth_def getAdHeight_def initAd_def initAd_p0_def callEvent_'_def
      log_js_def Let_def split: parsed.splits option.splits cbslot.splits)

text \<open>
  C8. \<open>skipAd\<close> emits \<open>AdSkipped\<close> exactly when \<open>skippableState\<close> is true at the call; when
  it is false, the call returns normally, emits nothing and changes nothing but the
  console, to which it writes its log line.
\<close>

theorem skipAd_emits_iff_skippable:
  "(CallEvent ''AdSkipped'' \<in> set (emitted w (snd (skipAd w)))) =
     skippableState (attributes_' w)
   \<and> (\<not> skippableState (attributes_' w) \<longrightarrow>
        skipAd w = (Return (), log_js [Txt ''skipAd''] w)
        \<and> emitted w (snd (skipAd w)) = []
        \<and> attributes_' (snd (skipAd w)) = attributes_' w)"
  by (simp add: skipAd_def emitted_def seq_defs split: option.splits cbslot.splits)

theorem skipAd_emits_iff_skippable_witness:
  "\<not> skippableState (attributes_' (VpaidNonLinear (page 0 Undeclared)))
   \<and> skipAd (VpaidNonLinear (page 0 Undeclared)) =
       (Return (), log_js [Txt ''skipAd''] (VpaidNonLinear (page 0 Undeclared)))
   \<and> emitted (VpaidNonLinear (page 0 Undeclared))
        (snd (skipAd (VpaidNonLinear (page 0 Undeclared)))) = []"
proof -
  have h: "\<not> skippableState (attributes_' (VpaidNonLinear (page 0 Undeclared)))"
    by (simp add: VpaidNonLinear_def)
  from skipAd_emits_iff_skippable [of "VpaidNonLinear (page 0 Undeclared)"] h
  show ?thesis by blast
qed

text \<open>
  C5. For every version string, \<open>handshakeVersion\<close> returns \<open>2.0\<close> and leaves the object
  and its page as they were; the method has the same text in both files.
\<close>

theorem handshakeVersion_fixed:
  "handshakeVersion version w = (Return ''2.0'', w)"
  by (simp add: handshakeVersion_def)

subsection \<open>The dispatcher after \<open>subscribe\<close>\<close>

lemma subscribeAll_append: "subscribeAll (xs @ ys) w = subscribeAll ys (subscribeAll xs w)"
  by (induction xs arbitrary: w) auto

lemma subscribeAll_other:
  "\<forall>r\<in>set rs. fst (snd r) \<noteq> e \<Longrightarrow>
     eventsCallbacks_' (subscribeAll rs w) e = eventsCallbacks_' w e"
  by (induction rs arbitrary: w) (auto simp: subscribe_def log_js_def Let_def)

lemma subscribeAll_last:
  "\<forall>r\<in>set later. fst (snd r) \<noteq> e \<Longrightarrow>
     eventsCallbacks_' (subscribeAll (earlier @ (f, e, c) # later) w) e = Some (BoundFn f c)"
  by (simp add: subscribeAll_append subscribeAll_other subscribe_def log_js_def Let_def)

lemma subscribeAll_p0_append:
  "subscribeAll_p0 (xs @ ys) w = subscribeAll_p0 ys (subscribeAll_p0 xs w)"
  by (induction xs arbitrary: w) auto

lemma subscribeAll_p0_other:
  "\<forall>r\<in>set rs. fst (snd r) \<noteq> e \<Longrightarrow>
     eventsCallbacks_' (subscribeAll_p0 rs w) e = eventsCallbacks_' w e"
  by (induction rs arbitrary: w) (auto simp: subscribe_p0_def log_js_def Let_def)

lemma subscribeAll_p0_last:
  "\<forall>r\<in>set later. fst (snd r) \<noteq> e \<Longrightarrow>
     eventsCallbacks_' (subscribeAll_p0 (earlier @ (f, e, c) # later) w) e =
       Some (BoundFn f c)"
  by (simp add: subscribeAll_p0_append subscribeAll_p0_other subscribe_p0_def log_js_def
      Let_def)

lemma callEvent_bound:
  "eventsCallbacks_' w e = Some (BoundFn f c) \<Longrightarrow>
     fst (callEvent_' e w) = Return ()
     \<and> emitted w (snd (callEvent_' e w)) = [CallEvent e, Invoked f c []]"
  by (simp add: callEvent_'_def emitted_def Let_def)

text \<open>
  C7. After any list of \<open>subscribe\<close> calls in which the last one for the event name \<open>e\<close>
  registers \<open>f\<close> with context \<open>c\<close> (any registrations before it, for \<open>e\<close> or not, and
  only registrations for other names after it), emitting \<open>e\<close> returns normally and
  calls exactly one function: \<open>f\<close> bound to \<open>c\<close>, once, with no arguments. This holds for
  \<open>subscribe\<close> of both files.
\<close>

theorem subscribe_last_registration_wins:
  assumes "\<forall>r\<in>set later. fst (snd r) \<noteq> e"
  shows "fst (callEvent_' e (subscribeAll (earlier @ (f, e, c) # later) w)) = Return ()
    \<and> emitted (subscribeAll (earlier @ (f, e, c) # later) w)
        (snd (callEvent_' e (subscribeAll (earlier @ (f, e, c) # later) w))) =
        [CallEvent e, Invoked f c []]
    \<and> fst (callEvent_' e (subscribeAll_p0 (earlier @ (f, e, c) # later) w)) = Return ()
    \<and> emitted (subscribeAll_p0 (earlier @ (f, e, c) # later) w)
        (snd (callEvent_' e (subscribeAll_p0 (earlier @ (f, e, c) # later) w))) =
        [CallEvent e, Invoked f c []]"
  using callEvent_bound [OF subscribeAll_last [OF assms,
        where earlier = earlier and f = f and c = c and w = w]]
    callEvent_bound [OF subscribeAll_p0_last [OF assms,
        where earlier = earlier and f = f and c = c and w = w]]
  by simp

theorem subscribe_last_registration_wins_witness:
  "fst (snd (Callback 3, ''AdPaused'', Context 3)) \<noteq> ''AdStarted''
   \<and> emitted (subscribeAll [(Callback 1, ''AdStarted'', Context 1),
                  (Callback 2, ''AdStarted'', Context 2),
                  (Callback 3, ''AdPaused'', Context 3)] (VpaidNonLinear (page 0 Undeclared)))
        (snd (callEvent_' ''AdStarted'' (subscribeAll [(Callback 1, ''AdStarted'', Context 1),
                  (Callback 2, ''AdStarted'', Context 2),
                  (Callback 3, ''AdPaused'', Context 3)] (VpaidNonLinear (page 0 Undeclared))))) =
        [CallEvent ''AdStarted'', Invoked (Callback 2) (Context 2) []]"
proof -
  have h: "\<forall>r\<in>set [(Callback 3, ''AdPaused'', Context 3)]. fst (snd r) \<noteq> ''AdStarted''"
    by simp
  from subscribe_last_registration_wins [OF h,
      of "[(Callback 1, ''AdStarted'', Context 1)]" "Callback 2" "Context 2"
         "VpaidNonLinear (page 0 Undeclared)"] h
  show ?thesis by simp
qed

subsection \<open>What every call preserves\<close>

text \<open>
  A predicate that each of two statements in sequence preserves is preserved by the
  sequence, whether or not the first one throws.
\<close>

lemma andThen_keeps:
  assumes "P w" and "\<And>w. P w \<Longrightarrow> P (snd (f w))" and "\<And>w. P w \<Longrightarrow> P (snd (g w))"
  shows "P (snd (andThen f g w))"
proof (cases "f w")
  case (Pair r w')
  with assms(1,2) have "P w'" by (metis snd_conv)
  with Pair assms(3) show ?thesis
    by (cases r) (simp_all add: andThen_def)
qed


text \<open>No call removes or reorders events: the history only grows at its end.\<close>

lemma ke_andThen:
  assumes "keepsEvents es w"
    and "\<And>w. keepsEvents es w \<Longrightarrow> keepsEvents es (snd (f w))"
    and "\<And>w. keepsEvents es w \<Longrightarrow> keepsEvents es (snd (g w))"
  shows "keepsEvents es (snd (andThen f g w))"
  using assms by (rule andThen_keeps [where P = "keepsEvents es"])

lemma ke_log [simp]: "keepsEvents es (log_js m w) = keepsEvents es w"
  by (simp add: keepsEvents_def log_js_def)

lemma ke_callEvent: "keepsEvents es w \<Longrightarrow> keepsEvents es (snd (callEvent_' e w))"
  by (auto simp: keepsEvents_def callEvent_'_def Let_def split: option.splits cbslot.splits)

lemma ke_videoSlotCall: "keepsEvents es w \<Longrightarrow> keepsEvents es (snd (videoSlotCall c w))"
  by (auto simp: keepsEvents_def videoSlotCall_def split: handle.splits)

lemma ke_slotAppendChild: "keepsEvents es w \<Longrightarrow> keepsEvents es (snd (slotAppendChild c w))"
  by (auto simp: keepsEvents_def slotAppendChild_def split: handle.splits)

lemma ke_clearSlot: "keepsEvents es w \<Longrightarrow> keepsEvents es (snd (clearSlot w))"
  by (auto simp: keepsEvents_def clearSlot_def split: handle.splits)

lemma ke_chooseVideo: "keepsEvents es w \<Longrightarrow> keepsEvents es (snd (chooseVideo vs w))"
  by (induction vs arbitrary: w) (auto simp: keepsEvents_def split: handle.splits)

lemma ke_playVideos: "keepsEvents es w \<Longrightarrow> keepsEvents es (snd (playVideos vs w))"
proof (induction vs arbitrary: w)
  case Nil
  then show ?case by simp
next
  case (Cons v vs)
  show ?case
  proof (cases "videoSlot_' w")
    case (Obj el)
    have "keepsEvents es (w\<lparr>videoSlot_' := Obj (el\<lparr>calls := calls el @
            [SetAttribute ''src'' (JStr (url v)), AddEventListener ''ended'', Play]\<rparr>)\<rparr>)"
      using Cons.prems by (simp add: keepsEvents_def)
    with Cons Obj show ?thesis by simp
  qed (use Cons.prems in simp_all)
qed

lemma ke_attrs: "keepsEvents es (w\<lparr>attributes_' := a\<rparr>) = keepsEvents es w"
  by (simp add: keepsEvents_def)

lemma ke_stopAd: "keepsEvents es w \<Longrightarrow> keepsEvents es (snd (stopAd w))"
  by (simp add: keepsEvents_def stopAd_def log_js_def Let_def)

lemma ke_stopAdTimes: "keepsEvents es w \<Longrightarrow> keepsEvents es (stopAdTimes n w)"
  by (induction n arbitrary: w) (simp_all add: ke_stopAd)

lemma ke_videoEnded: "keepsEvents es w \<Longrightarrow> keepsEvents es (videoEnded w)"
  by (simp add: videoEnded_def ke_stopAdTimes split: handle.splits)

lemma ke_timerFires: "keepsEvents es w \<Longrightarrow> keepsEvents es (snd (timerFires w))"
proof (cases "timers w")
  case Nil
  assume "keepsEvents es w"
  with Nil show ?thesis by (simp add: timerFires_def)
next
  case (Cons t rest)
  assume ke: "keepsEvents es w"
  then have r: "keepsEvents es (w\<lparr>timers := rest\<rparr>)"
    by (simp add: keepsEvents_def)
  from ke_callEvent [OF r, of "propertyKey (args t)"] Cons ke show ?thesis
    by (simp add: timerFires_def)
qed

lemma ke_tick: "keepsEvents es w \<Longrightarrow> keepsEvents es (tick ms w)"
  by (simp add: keepsEvents_def tick_def)

lemma ke_skipAd: "keepsEvents es w \<Longrightarrow> keepsEvents es (snd (skipAd w))"
  by (simp add: skipAd_def Let_def ke_callEvent)

lemma ke_setAdVolume: "keepsEvents es w \<Longrightarrow> keepsEvents es (snd (setAdVolume v w))"
  by (simp add: setAdVolume_def Let_def ke_callEvent ke_attrs)

lemma ke_getters:
  "keepsEvents es w \<Longrightarrow> keepsEvents es (snd (handshakeVersion v w))"
  "keepsEvents es w \<Longrightarrow> keepsEvents es (snd (getAdVolume w))"
  "keepsEvents es w \<Longrightarrow> keepsEvents es (snd (getAdExpanded w))"
  "keepsEvents es w \<Longrightarrow> keepsEvents es (snd (getAdSkippableState w))"
  "keepsEvents es w \<Longrightarrow> keepsEvents es (snd (getAdWidth w))"
  "keepsEvents es w \<Longrightarrow> keepsEvents es (snd (getAdHeight w))"
  "keepsEvents es w \<Longrightarrow> keepsEvents es (snd (getAdRemainingTime w))"
  "keepsEvents es w \<Longrightarrow> keepsEvents es (snd (getAdDuration w))"
  "keepsEvents es w \<Longrightarrow> keepsEvents es (snd (getAdCompanions w))"
  "keepsEvents es w \<Longrightarrow> keepsEvents es (snd (getAdIcons w))"
  "keepsEvents es w \<Longrightarrow> keepsEvents es (snd (getAdLinear w))"
  by (simp_all add: handshakeVersion_def getAdVolume_def getAdExpanded_def
      getAdSkippableState_def getAdWidth_def getAdHeight_def getAdRemainingTime_def
      getAdDuration_def getAdCompanions_def getAdIcons_def getAdLinear_def Let_def)

lemma ke_collapseAd: "keepsEvents es w \<Longrightarrow> keepsEvents es (snd (collapseAd w))"
  by (simp add: collapseAd_def Let_def ke_attrs)

lemma ke_subscriptions:
  "keepsEvents es w \<Longrightarrow> keepsEvents es (snd (subscribe f e c w))"
  "keepsEvents es w \<Longrightarrow> keepsEvents es (snd (subscribe_p0 f e c w))"
  "keepsEvents es w \<Longrightarrow> keepsEvents es (snd (unsubscribe e w))"
  by (simp_all add: subscribe_def subscribe_p0_def unsubscribe_def Let_def)
     (simp_all add: keepsEvents_def log_js_def)

lemma ke_pauseAd: "keepsEvents es w \<Longrightarrow> keepsEvents es (snd (pauseAd w))"
  unfolding pauseAd_def
  by (rule ke_andThen) (simp_all add: ke_videoSlotCall ke_callEvent)

lemma ke_resumeAd: "keepsEvents es w \<Longrightarrow> keepsEvents es (snd (resumeAd w))"
  unfolding resumeAd_def
  by (rule ke_andThen) (simp_all add: ke_videoSlotCall ke_callEvent)

lemma ke_resumeAd_p0: "keepsEvents es w \<Longrightarrow> keepsEvents es (snd (resumeAd_p0 w))"
  unfolding resumeAd_p0_def
  by (rule ke_andThen) (simp_all add: ke_videoSlotCall ke_callEvent)

lemma ke_expandAd: "keepsEvents es w \<Longrightarrow> keepsEvents es (snd (expandAd w))"
proof -
  assume ns: "keepsEvents es w"
  let ?w2 = "(log_js [Txt ''expandAd''] w)\<lparr>attributes_' :=
      (attributes_' (log_js [Txt ''expandAd''] w))\<lparr>expanded := True\<rparr>\<rparr>"
  from ns have a: "keepsEvents es ?w2" by (simp add: ke_attrs)
  then have b: "keepsEvents es (?w2\<lparr>fullscreen := Suc (fullscreen ?w2)\<rparr>)"
    by (simp add: keepsEvents_def)
  from a b show ?thesis
    by (cases "elem w") (simp_all add: expandAd_def Let_def log_js_def ke_callEvent)
qed

lemma ke_expandAd_p0: "keepsEvents es w \<Longrightarrow> keepsEvents es (snd (expandAd_p0 w))"
  by (simp add: expandAd_p0_def Let_def ke_callEvent ke_attrs)


lemma ke_initAd: "keepsEvents es w \<Longrightarrow> keepsEvents es (snd (initAd a b c d e f w))"
proof -
  assume ns: "keepsEvents es w"
  let ?w1 = "w\<lparr>attributes_' := (attributes_' w)\<lparr>width := a, height := b,
                  viewMode := c, desiredBitrate := d\<rparr>,
                slot_' := slot f, videoSlot_' := videoSlot f\<rparr>"
  from ns have w1: "keepsEvents es ?w1" by (simp add: keepsEvents_def)
  show ?thesis
  proof (cases "AdParameters e")
    case (Json data)
    from w1 have "keepsEvents es (?w1\<lparr>imageUrls_' := orNil (overlays data),
        videos_' := orNil (videos data)\<rparr>)"
      by (simp add: keepsEvents_def)
    with Json show ?thesis by (simp add: initAd_def Let_def ke_callEvent)
  qed (use w1 in \<open>simp_all add: initAd_def Let_def\<close>)
qed

lemma ke_initAd_p0: "keepsEvents es w \<Longrightarrow> keepsEvents es (snd (initAd_p0 a b c d e f w))"
proof -
  assume ns: "keepsEvents es w"
  let ?w1 = "w\<lparr>attributes_' := (attributes_' w)\<lparr>width := a, height := b,
                  viewMode := c, desiredBitrate := d\<rparr>,
                slot_' := slot f, videoSlot_' := videoSlot f\<rparr>"
  from ns have w1: "keepsEvents es ?w1" by (simp add: keepsEvents_def)
  then have w2: "keepsEvents es (?w1\<lparr>parameters_' := p\<rparr>)" for p
    by (simp add: keepsEvents_def)
  show ?thesis
    by (cases "AdParameters e") (use w1 w2 in \<open>simp_all add: initAd_p0_def Let_def ke_callEvent\<close>)
qed

lemma ke_startAd: "keepsEvents es w \<Longrightarrow> keepsEvents es (snd (startAd w))"
proof -
  assume ns: "keepsEvents es w"
  then have w3: "keepsEvents es ((log_js [Txt ''Starting ad''] w)\<lparr>head := head w @ [IMG_CSS],
      startTime_' := now w\<rparr>)"
    by (simp add: keepsEvents_def log_js_def)
  show ?thesis
    unfolding startAd_def Let_def
    apply (rule ke_andThen)
    using w3 apply (simp add: log_js_def)
     apply (erule ke_slotAppendChild)
    apply (erule ke_andThen)
     apply (erule ke_slotAppendChild)
    apply (simp add: ke_callEvent)
    done
qed

lemma ke_startAd_p0: "keepsEvents es w \<Longrightarrow> keepsEvents es (snd (startAd_p0 w))"
proof -
  assume ns: "keepsEvents es w"
  then have w2: "keepsEvents es ((log_js [Txt ''Starting ad''] w)\<lparr>startTime_' := now w\<rparr>)"
    by (simp add: keepsEvents_def log_js_def)
  have seq: "keepsEvents es (snd (andThen (slotAppendChild i1)
      (andThen (slotAppendChild i2) (callEvent_' ''AdStarted''))
      ((log_js [Txt ''Starting ad''] w)\<lparr>startTime_' := now w\<rparr>)))" for i1 i2
    apply (rule ke_andThen [OF w2])
     apply (erule ke_slotAppendChild)
    apply (erule ke_andThen)
     apply (erule ke_slotAppendChild)
    apply (simp add: ke_callEvent)
    done
  show ?thesis
    by (cases "parameters_' w") (use w2 seq in \<open>simp_all add: startAd_p0_def Let_def log_js_def\<close>)
qed

lemma ke_resizeAd: "keepsEvents es w \<Longrightarrow> keepsEvents es (snd (resizeAd a b c w))"
proof -
  assume ns: "keepsEvents es w"
  then have w2: "keepsEvents es ((log_js m w)\<lparr>attributes_' :=
      (attributes_' (log_js m w))\<lparr>width := a, height := b, viewMode := c\<rparr>\<rparr>)" for m
    by (simp add: keepsEvents_def log_js_def)
  show ?thesis
    unfolding resizeAd_def Let_def updateVideoPlayerSize_'_def
    apply (rule ke_andThen [OF w2])
     apply (erule ke_andThen)
      apply (erule ke_videoSlotCall)
     apply (erule ke_videoSlotCall)
    apply (simp add: ke_callEvent)
    done
qed

lemma ke_resizeAd_p0: "keepsEvents es w \<Longrightarrow> keepsEvents es (snd (resizeAd_p0 a b c w))"
  by (simp add: resizeAd_p0_def Let_def) (simp add: keepsEvents_def log_js_def)

lemma ke_overlayOnClick: "keepsEvents es w \<Longrightarrow> keepsEvents es (snd (overlayOnClick_' w))"
  unfolding overlayOnClick_'_def
  apply (erule ke_andThen)
   apply (simp add: ke_callEvent)
  apply (rule ke_callEvent)
  apply (simp add: keepsEvents_def)
  done

lemma ke_overlay2OnClick: "keepsEvents es w \<Longrightarrow> keepsEvents es (snd (overlay2OnClick_' w))"
proof -
  assume ns: "keepsEvents es w"
  then have w1: "keepsEvents es (w\<lparr>attributes_' := (attributes_' w)\<lparr>linear_attr := True\<rparr>\<rparr>)"
    by (simp add: keepsEvents_def)
  have rest: "keepsEvents es (snd (case chooseVideo (videos_' w2) w2 of
                   (Throw e, w3) \<Rightarrow> (Throw e, w3)
                 | (Return foundSource, w3) \<Rightarrow>
                     andThen (\<lambda>w4. if foundSource then (Return (), w4)
                                    else callEvent_' ''AdError'' w4)
                       (andThen (videoSlotCall (AddEventListener ''ended''))
                          (videoSlotCall Play)) w3))"
    if w2: "keepsEvents es w2" for w2 :: vpaid
  proof (cases "chooseVideo (videos_' w2) w2")
    case (Pair r w3)
    with ke_chooseVideo [OF w2, of "videos_' w2"] have w3: "keepsEvents es w3" by simp
    show ?thesis
    proof (cases r)
      case (Return foundSource)
      have "keepsEvents es (snd (andThen (\<lambda>w4. if foundSource then (Return (), w4)
                                    else callEvent_' ''AdError'' w4)
                       (andThen (videoSlotCall (AddEventListener ''ended''))
                          (videoSlotCall Play)) w3))"
        apply (rule ke_andThen [OF w3])
         apply (simp add: ke_callEvent)
        apply (erule ke_andThen)
         apply (erule ke_videoSlotCall)
        apply (erule ke_videoSlotCall)
        done
      with Pair Return show ?thesis by simp
    next
      case (Throw e)
      with Pair w3 show ?thesis by simp
    qed
  qed
  show ?thesis
    unfolding overlay2OnClick_'_def
    apply (rule ke_andThen [OF w1])
     apply (simp add: ke_callEvent)
    apply (erule ke_andThen)
     apply (erule ke_clearSlot)
    apply (erule rest)
    done
qed

lemma ke_nonLinearAdClick: "keepsEvents es w \<Longrightarrow> keepsEvents es (snd (nonLinearAdClick w))"
  by (auto simp: nonLinearAdClick_def keepsEvents_def split: option.splits cbslot.splits)

lemma ke_linearButtonClick: "keepsEvents es w \<Longrightarrow> keepsEvents es (snd (linearButtonClick w))"
proof -
  assume ns: "keepsEvents es w"
  then have w1: "keepsEvents es (w\<lparr>attributes_' := (attributes_' w)\<lparr>linear_attr := True\<rparr>\<rparr>)"
    by (simp add: keepsEvents_def)
  have rest: "keepsEvents es (snd (case parameters_' w2 of
                   Obj p \<Rightarrow>
                     andThen (playVideos (orNil (videos p))) (callEvent_' ''AdError'') w2
                 | Null \<Rightarrow> (Throw TypeError, w2)
                 | Undefined \<Rightarrow> (Throw TypeError, w2)))"
    if w2: "keepsEvents es w2" for w2 :: vpaid_p0
  proof (cases "parameters_' w2")
    case (Obj p)
    have "keepsEvents es (snd (andThen (playVideos (orNil (videos p)))
        (callEvent_' ''AdError'') w2))"
      apply (rule ke_andThen [OF w2])
       apply (erule ke_playVideos)
      apply (simp add: ke_callEvent)
      done
    with Obj show ?thesis by simp
  qed (use w2 in simp_all)
  show ?thesis
    unfolding linearButtonClick_def
    apply (rule ke_andThen [OF w1])
     apply (simp add: ke_callEvent)
    apply (erule ke_andThen)
     apply (erule ke_clearSlot)
    apply (erule rest)
    done
qed

lemma ke_click: "keepsEvents es w \<Longrightarrow> keepsEvents es (snd (click i w))"
  by (simp add: click_def ke_overlayOnClick ke_overlay2OnClick
      split: handle.splits handler.splits)

lemma ke_click_p0: "keepsEvents es w \<Longrightarrow> keepsEvents es (snd (click_p0 i w))"
  by (simp add: click_p0_def ke_nonLinearAdClick ke_linearButtonClick
      split: handle.splits handler.splits)

lemma ke_step: "keepsEvents es w \<Longrightarrow> keepsEvents es (step c w)"
  by (cases c) (simp_all add: ke_getters ke_initAd ke_startAd ke_stopAd ke_setAdVolume
      ke_resizeAd ke_pauseAd ke_resumeAd ke_expandAd ke_collapseAd ke_skipAd ke_subscriptions
      ke_click ke_videoEnded ke_timerFires ke_tick)

lemma ke_step_p0: "keepsEvents es w \<Longrightarrow> keepsEvents es (step_p0 c w)"
  by (cases c) (simp_all add: ke_getters ke_initAd_p0 ke_startAd_p0 ke_stopAd ke_setAdVolume
      ke_resizeAd_p0 ke_pauseAd ke_resumeAd_p0 ke_expandAd_p0 ke_collapseAd ke_skipAd
      ke_subscriptions ke_click_p0 ke_videoEnded ke_timerFires ke_tick)

lemma ke_run: "keepsEvents es w \<Longrightarrow> keepsEvents es (run cs w)"
  by (induction cs arbitrary: w) (simp_all add: ke_step)

lemma ke_run_p0: "keepsEvents es w \<Longrightarrow> keepsEvents es (run_p0 cs w)"
  by (induction cs arbitrary: w) (simp_all add: ke_step_p0)


lemma run_events_grow: "prefix (events w) (events (run cs w))"
  using ke_run [of "events w" w cs] by (simp add: keepsEvents_def)

lemma run_p0_events_grow: "prefix (events w) (events (run_p0 cs w))"
  using ke_run_p0 [of "events w" w cs] by (simp add: keepsEvents_def)

subsection \<open>Stopping\<close>

text \<open>
  C9. \<open>stopAd\<close> returns normally without emitting anything: it only schedules a timer
  with the fixed delay 75 that will call \<open>callEvent_\<close> with \<open>['AdStopped']\<close>. With no
  other timer pending, the timer does nothing before 75 milliseconds have passed, and
  from then on it emits \<open>AdStopped\<close> after every event of the history. Whatever happens
  to the ad of either file once \<open>stopAd\<close> has returned, the events emitted up to that
  return stay the beginning of the history, so an \<open>AdStopped\<close> of this timer comes
  after them.
\<close>

theorem stopAd_defers_AdStopped:
  "fst (stopAd w) = Return ()
   \<and> emitted w (snd (stopAd w)) = []
   \<and> timers (snd (stopAd w)) =
       timers w @ [\<lparr>delay = 75, setAt = now w, args = [''AdStopped'']\<rparr>]
   \<and> (timers w = [] \<longrightarrow>
        (ms < 75 \<longrightarrow>
           timerFires (tick ms (snd (stopAd w))) = (Return (), tick ms (snd (stopAd w))))
        \<and> (75 \<le> ms \<longrightarrow>
           timerFires (tick ms (snd (stopAd w))) =
             callEvent_' ''AdStopped'' ((tick ms (snd (stopAd w)))\<lparr>timers := []\<rparr>)
           \<and> take (Suc (length (events w)))
               (events (snd (timerFires (tick ms (snd (stopAd w)))))) =
               events w @ [CallEvent ''AdStopped'']))
   \<and> prefix (events v) (events (run cs (snd (stopAd v))))
   \<and> prefix (events v0) (events (run_p0 cs (snd (stopAd v0))))"
proof -
  have sync: "events (snd (stopAd u)) = events u" for u :: "'b ad_scheme"
    by (simp add: stopAd_def log_js_def Let_def)
  have "prefix (events v) (events (run cs (snd (stopAd v))))"
    using run_events_grow [of "snd (stopAd v)" cs] by (simp add: sync)
  moreover have "prefix (events v0) (events (run_p0 cs (snd (stopAd v0))))"
    using run_p0_events_grow [of "snd (stopAd v0)" cs] by (simp add: sync)
  moreover have "fst (stopAd w) = Return ()
   \<and> emitted w (snd (stopAd w)) = []
   \<and> timers (snd (stopAd w)) =
       timers w @ [\<lparr>delay = 75, setAt = now w, args = [''AdStopped'']\<rparr>]
   \<and> (timers w = [] \<longrightarrow>
        (ms < 75 \<longrightarrow>
           timerFires (tick ms (snd (stopAd w))) = (Return (), tick ms (snd (stopAd w))))
        \<and> (75 \<le> ms \<longrightarrow>
           timerFires (tick ms (snd (stopAd w))) =
             callEvent_' ''AdStopped'' ((tick ms (snd (stopAd w)))\<lparr>timers := []\<rparr>)
           \<and> take (Suc (length (events w)))
               (events (snd (timerFires (tick ms (snd (stopAd w)))))) =
               events w @ [CallEvent ''AdStopped'']))"
    by (auto simp: stopAd_def emitted_def timerFires_def tick_def log_js_def Let_def
        callEvent_'_def split: option.splits cbslot.splits)
  ultimately show ?thesis by blast
qed

theorem stopAd_defers_AdStopped_witness:
  "timers (VpaidNonLinear (page 0 Undeclared)) = []
   \<and> (10::nat) < 75
   \<and> timerFires (tick 10 (snd (stopAd (VpaidNonLinear (page 0 Undeclared))))) =
       (Return (), tick 10 (snd (stopAd (VpaidNonLinear (page 0 Undeclared)))))
   \<and> (75::nat) \<le> 80
   \<and> take (Suc (length (events (VpaidNonLinear (page 0 Undeclared)))))
        (events (snd (timerFires (tick 80 (snd (stopAd (VpaidNonLinear (page 0 Undeclared))))))))
      = events (VpaidNonLinear (page 0 Undeclared)) @ [CallEvent ''AdStopped'']"
proof -
  have h: "timers (VpaidNonLinear (page 0 Undeclared)) = []"
    by (simp add: VpaidNonLinear_def page_def)
  have early: "(10::nat) < 75" and late: "(75::nat) \<le> 80"
    by simp_all
  from stopAd_defers_AdStopped [of "VpaidNonLinear (page 0 Undeclared)" 10
      "VpaidNonLinear (page 0 Undeclared)" "[]" "VpaidNonLinear_p0 (page 0 Undeclared)"]
    h early
  have "timerFires (tick 10 (snd (stopAd (VpaidNonLinear (page 0 Undeclared))))) =
       (Return (), tick 10 (snd (stopAd (VpaidNonLinear (page 0 Undeclared)))))"
    by blast
  moreover
  from stopAd_defers_AdStopped [of "VpaidNonLinear (page 0 Undeclared)" 80
      "VpaidNonLinear (page 0 Undeclared)" "[]" "VpaidNonLinear_p0 (page 0 Undeclared)"]
    h late
  have "take (Suc (length (events (VpaidNonLinear (page 0 Undeclared)))))
        (events (snd (timerFires (tick 80 (snd (stopAd (VpaidNonLinear (page 0 Undeclared))))))))
      = events (VpaidNonLinear (page 0 Undeclared)) @ [CallEvent ''AdStopped'']"
    by blast
  ultimately show ?thesis using h early late by blast
qed

subsection \<open>Skipping never happens\<close>

text \<open>No call makes the ad skippable, emits \<open>AdSkipped\<close> or schedules another event.\<close>

lemma ns_andThen:
  assumes "neverSkipped w"
    and "\<And>w. neverSkipped w \<Longrightarrow> neverSkipped (snd (f w))"
    and "\<And>w. neverSkipped w \<Longrightarrow> neverSkipped (snd (g w))"
  shows "neverSkipped (snd (andThen f g w))"
  using assms by (rule andThen_keeps [where P = neverSkipped])

lemma ns_log [simp]: "neverSkipped (log_js m w) = neverSkipped w"
  by (simp add: neverSkipped_def log_js_def)

lemma ns_callEvent: "e \<noteq> ''AdSkipped'' \<Longrightarrow> neverSkipped w \<Longrightarrow> neverSkipped (snd (callEvent_' e w))"
  by (auto simp: neverSkipped_def callEvent_'_def Let_def split: option.splits cbslot.splits)

lemma ns_videoSlotCall: "neverSkipped w \<Longrightarrow> neverSkipped (snd (videoSlotCall c w))"
  by (auto simp: neverSkipped_def videoSlotCall_def split: handle.splits)

lemma ns_slotAppendChild: "neverSkipped w \<Longrightarrow> neverSkipped (snd (slotAppendChild c w))"
  by (auto simp: neverSkipped_def slotAppendChild_def split: handle.splits)

lemma ns_clearSlot: "neverSkipped w \<Longrightarrow> neverSkipped (snd (clearSlot w))"
  by (auto simp: neverSkipped_def clearSlot_def split: handle.splits)

lemma ns_chooseVideo: "neverSkipped w \<Longrightarrow> neverSkipped (snd (chooseVideo vs w))"
  by (induction vs arbitrary: w) (auto simp: neverSkipped_def split: handle.splits)

lemma ns_playVideos: "neverSkipped w \<Longrightarrow> neverSkipped (snd (playVideos vs w))"
proof (induction vs arbitrary: w)
  case Nil
  then show ?case by simp
next
  case (Cons v vs)
  show ?case
  proof (cases "videoSlot_' w")
    case (Obj el)
    have "neverSkipped (w\<lparr>videoSlot_' := Obj (el\<lparr>calls := calls el @
            [SetAttribute ''src'' (JStr (url v)), AddEventListener ''ended'', Play]\<rparr>)\<rparr>)"
      using Cons.prems by (simp add: neverSkipped_def)
    with Cons Obj show ?thesis by simp
  qed (use Cons.prems in simp_all)
qed

lemma ns_attrs:
  "skippableState a = skippableState (attributes_' w) \<Longrightarrow>
     neverSkipped (w\<lparr>attributes_' := a\<rparr>) = neverSkipped w"
  by (simp add: neverSkipped_def)

lemma ns_stopAd: "neverSkipped w \<Longrightarrow> neverSkipped (snd (stopAd w))"
  by (simp add: neverSkipped_def stopAd_def log_js_def Let_def)

lemma ns_stopAdTimes: "neverSkipped w \<Longrightarrow> neverSkipped (stopAdTimes n w)"
  by (induction n arbitrary: w) (simp_all add: ns_stopAd)

lemma ns_videoEnded: "neverSkipped w \<Longrightarrow> neverSkipped (videoEnded w)"
  by (simp add: videoEnded_def ns_stopAdTimes split: handle.splits)

lemma ns_timerFires: "neverSkipped w \<Longrightarrow> neverSkipped (snd (timerFires w))"
proof (cases "timers w")
  case Nil
  assume "neverSkipped w"
  with Nil show ?thesis by (simp add: timerFires_def)
next
  case (Cons t rest)
  assume ns: "neverSkipped w"
  with Cons have k: "propertyKey (args t) = ''AdStopped''" and r: "neverSkipped (w\<lparr>timers := rest\<rparr>)"
    by (simp_all add: neverSkipped_def)
  from ns_callEvent [OF _ r, of "''AdStopped''"] k Cons ns show ?thesis
    by (simp add: timerFires_def)
qed

lemma ns_tick: "neverSkipped w \<Longrightarrow> neverSkipped (tick ms w)"
  by (simp add: neverSkipped_def tick_def)

lemma ns_skipAd: "neverSkipped w \<Longrightarrow> neverSkipped (snd (skipAd w))"
  by (simp add: skipAd_def Let_def) (simp add: neverSkipped_def log_js_def)

lemma ns_setAdVolume: "neverSkipped w \<Longrightarrow> neverSkipped (snd (setAdVolume v w))"
  by (simp add: setAdVolume_def Let_def ns_callEvent ns_attrs)

lemma ns_getters:
  "neverSkipped w \<Longrightarrow> neverSkipped (snd (handshakeVersion v w))"
  "neverSkipped w \<Longrightarrow> neverSkipped (snd (getAdVolume w))"
  "neverSkipped w \<Longrightarrow> neverSkipped (snd (getAdExpanded w))"
  "neverSkipped w \<Longrightarrow> neverSkipped (snd (getAdSkippableState w))"
  "neverSkipped w \<Longrightarrow> neverSkipped (snd (getAdWidth w))"
  "neverSkipped w \<Longrightarrow> neverSkipped (snd (getAdHeight w))"
  "neverSkipped w \<Longrightarrow> neverSkipped (snd (getAdRemainingTime w))"
  "neverSkipped w \<Longrightarrow> neverSkipped (snd (getAdDuration w))"
  "neverSkipped w \<Longrightarrow> neverSkipped (snd (getAdCompanions w))"
  "neverSkipped w \<Longrightarrow> neverSkipped (snd (getAdIcons w))"
  "neverSkipped w \<Longrightarrow> neverSkipped (snd (getAdLinear w))"
  by (simp_all add: handshakeVersion_def getAdVolume_def getAdExpanded_def
      getAdSkippableState_def getAdWidth_def getAdHeight_def getAdRemainingTime_def
      getAdDuration_def getAdCompanions_def getAdIcons_def getAdLinear_def Let_def)

lemma ns_collapseAd: "neverSkipped w \<Longrightarrow> neverSkipped (snd (collapseAd w))"
  by (simp add: collapseAd_def Let_def ns_attrs)

lemma ns_subscriptions:
  "neverSkipped w \<Longrightarrow> neverSkipped (snd (subscribe f e c w))"
  "neverSkipped w \<Longrightarrow> neverSkipped (snd (subscribe_p0 f e c w))"
  "neverSkipped w \<Longrightarrow> neverSkipped (snd (unsubscribe e w))"
  by (simp_all add: subscribe_def subscribe_p0_def unsubscribe_def Let_def)
     (simp_all add: neverSkipped_def log_js_def)

lemma ns_pauseAd: "neverSkipped w \<Longrightarrow> neverSkipped (snd (pauseAd w))"
  unfolding pauseAd_def
  by (rule ns_andThen) (simp_all add: ns_videoSlotCall ns_callEvent)

lemma ns_resumeAd: "neverSkipped w \<Longrightarrow> neverSkipped (snd (resumeAd w))"
  unfolding resumeAd_def
  by (rule ns_andThen) (simp_all add: ns_videoSlotCall ns_callEvent)

lemma ns_resumeAd_p0: "neverSkipped w \<Longrightarrow> neverSkipped (snd (resumeAd_p0 w))"
  unfolding resumeAd_p0_def
  by (rule ns_andThen) (simp_all add: ns_videoSlotCall ns_callEvent)

lemma ns_expandAd: "neverSkipped w \<Longrightarrow> neverSkipped (snd (expandAd w))"
proof -
  assume ns: "neverSkipped w"
  let ?w2 = "(log_js [Txt ''expandAd''] w)\<lparr>attributes_' :=
      (attributes_' (log_js [Txt ''expandAd''] w))\<lparr>expanded := True\<rparr>\<rparr>"
  from ns have a: "neverSkipped ?w2" by (simp add: ns_attrs)
  then have b: "neverSkipped (?w2\<lparr>fullscreen := Suc (fullscreen ?w2)\<rparr>)"
    by (simp add: neverSkipped_def)
  from a b show ?thesis
    by (cases "elem w") (simp_all add: expandAd_def Let_def log_js_def ns_callEvent)
qed

lemma ns_expandAd_p0: "neverSkipped w \<Longrightarrow> neverSkipped (snd (expandAd_p0 w))"
  by (simp add: expandAd_p0_def Let_def ns_callEvent ns_attrs)


lemma ns_initAd: "neverSkipped w \<Longrightarrow> neverSkipped (snd (initAd a b c d e f w))"
proof -
  assume ns: "neverSkipped w"
  let ?w1 = "w\<lparr>attributes_' := (attributes_' w)\<lparr>width := a, height := b,
                  viewMode := c, desiredBitrate := d\<rparr>,
                slot_' := slot f, videoSlot_' := videoSlot f\<rparr>"
  from ns have w1: "neverSkipped ?w1" by (simp add: neverSkipped_def)
  show ?thesis
  proof (cases "AdParameters e")
    case (Json data)
    from w1 have "neverSkipped (?w1\<lparr>imageUrls_' := orNil (overlays data),
        videos_' := orNil (videos data)\<rparr>)"
      by (simp add: neverSkipped_def)
    with Json show ?thesis by (simp add: initAd_def Let_def ns_callEvent)
  qed (use w1 in \<open>simp_all add: initAd_def Let_def\<close>)
qed

lemma ns_initAd_p0: "neverSkipped w \<Longrightarrow> neverSkipped (snd (initAd_p0 a b c d e f w))"
proof -
  assume ns: "neverSkipped w"
  let ?w1 = "w\<lparr>attributes_' := (attributes_' w)\<lparr>width := a, height := b,
                  viewMode := c, desiredBitrate := d\<rparr>,
                slot_' := slot f, videoSlot_' := videoSlot f\<rparr>"
  from ns have w1: "neverSkipped ?w1" by (simp add: neverSkipped_def)
  then have w2: "neverSkipped (?w1\<lparr>parameters_' := p\<rparr>)" for p
    by (simp add: neverSkipped_def)
  show ?thesis
    by (cases "AdParameters e") (use w1 w2 in \<open>simp_all add: initAd_p0_def Let_def ns_callEvent\<close>)
qed

lemma ns_startAd: "neverSkipped w \<Longrightarrow> neverSkipped (snd (startAd w))"
proof -
  assume ns: "neverSkipped w"
  then have w3: "neverSkipped ((log_js [Txt ''Starting ad''] w)\<lparr>head := head w @ [IMG_CSS],
      startTime_' := now w\<rparr>)"
    by (simp add: neverSkipped_def log_js_def)
  show ?thesis
    unfolding startAd_def Let_def
    apply (rule ns_andThen)
    using w3 apply (simp add: log_js_def)
     apply (erule ns_slotAppendChild)
    apply (erule ns_andThen)
     apply (erule ns_slotAppendChild)
    apply (simp add: ns_callEvent)
    done
qed

lemma ns_startAd_p0: "neverSkipped w \<Longrightarrow> neverSkipped (snd (startAd_p0 w))"
proof -
  assume ns: "neverSkipped w"
  then have w2: "neverSkipped ((log_js [Txt ''Starting ad''] w)\<lparr>startTime_' := now w\<rparr>)"
    by (simp add: neverSkipped_def log_js_def)
  have seq: "neverSkipped (snd (andThen (slotAppendChild i1)
      (andThen (slotAppendChild i2) (callEvent_' ''AdStarted''))
      ((log_js [Txt ''Starting ad''] w)\<lparr>startTime_' := now w\<rparr>)))" for i1 i2
    apply (rule ns_andThen [OF w2])
     apply (erule ns_slotAppendChild)
    apply (erule ns_andThen)
     apply (erule ns_slotAppendChild)
    apply (simp add: ns_callEvent)
    done
  show ?thesis
    by (cases "parameters_' w") (use w2 seq in \<open>simp_all add: startAd_p0_def Let_def log_js_def\<close>)
qed

lemma ns_resizeAd: "neverSkipped w \<Longrightarrow> neverSkipped (snd (resizeAd a b c w))"
proof -
  assume ns: "neverSkipped w"
  then have w2: "neverSkipped ((log_js m w)\<lparr>attributes_' :=
      (attributes_' (log_js m w))\<lparr>width := a, height := b, viewMode := c\<rparr>\<rparr>)" for m
    by (simp add: neverSkipped_def log_js_def)
  show ?thesis
    unfolding resizeAd_def Let_def updateVideoPlayerSize_'_def
    apply (rule ns_andThen [OF w2])
     apply (erule ns_andThen)
      apply (erule ns_videoSlotCall)
     apply (erule ns_videoSlotCall)
    apply (simp add: ns_callEvent)
    done
qed

lemma ns_resizeAd_p0: "neverSkipped w \<Longrightarrow> neverSkipped (snd (resizeAd_p0 a b c w))"
  by (simp add: resizeAd_p0_def Let_def) (simp add: neverSkipped_def log_js_def)

lemma ns_overlayOnClick: "neverSkipped w \<Longrightarrow> neverSkipped (snd (overlayOnClick_' w))"
  unfolding overlayOnClick_'_def
  apply (erule ns_andThen)
   apply (simp add: ns_callEvent)
  apply (rule ns_callEvent)
   apply simp
  apply (simp add: neverSkipped_def)
  done

lemma ns_overlay2OnClick: "neverSkipped w \<Longrightarrow> neverSkipped (snd (overlay2OnClick_' w))"
proof -
  assume ns: "neverSkipped w"
  then have w1: "neverSkipped (w\<lparr>attributes_' := (attributes_' w)\<lparr>linear_attr := True\<rparr>\<rparr>)"
    by (simp add: neverSkipped_def)
  have rest: "neverSkipped (snd (case chooseVideo (videos_' w2) w2 of
                   (Throw e, w3) \<Rightarrow> (Throw e, w3)
                 | (Return foundSource, w3) \<Rightarrow>
                     andThen (\<lambda>w4. if foundSource then (Return (), w4)
                                    else callEvent_' ''AdError'' w4)
                       (andThen (videoSlotCall (AddEventListener ''ended''))
                          (videoSlotCall Play)) w3))"
    if w2: "neverSkipped w2" for w2 :: vpaid
  proof (cases "chooseVideo (videos_' w2) w2")
    case (Pair r w3)
    with ns_chooseVideo [OF w2, of "videos_' w2"] have w3: "neverSkipped w3" by simp
    show ?thesis
    proof (cases r)
      case (Return foundSource)
      have "neverSkipped (snd (andThen (\<lambda>w4. if foundSource then (Return (), w4)
                                    else callEvent_' ''AdError'' w4)
                       (andThen (videoSlotCall (AddEventListener ''ended''))
                          (videoSlotCall Play)) w3))"
        apply (rule ns_andThen [OF w3])
         apply (simp add: ns_callEvent)
        apply (erule ns_andThen)
         apply (erule ns_videoSlotCall)
        apply (erule ns_videoSlotCall)
        done
      with Pair Return show ?thesis by simp
    next
      case (Throw e)
      with Pair w3 show ?thesis by simp
    qed
  qed
  show ?thesis
    unfolding overlay2OnClick_'_def
    apply (rule ns_andThen [OF w1])
     apply (simp add: ns_callEvent)
    apply (erule ns_andThen)
     apply (erule ns_clearSlot)
    apply (erule rest)
    done
qed

lemma ns_nonLinearAdClick: "neverSkipped w \<Longrightarrow> neverSkipped (snd (nonLinearAdClick w))"
  by (auto simp: nonLinearAdClick_def neverSkipped_def split: option.splits cbslot.splits)

lemma ns_linearButtonClick: "neverSkipped w \<Longrightarrow> neverSkipped (snd (linearButtonClick w))"
proof -
  assume ns: "neverSkipped w"
  then have w1: "neverSkipped (w\<lparr>attributes_' := (attributes_' w)\<lparr>linear_attr := True\<rparr>\<rparr>)"
    by (simp add: neverSkipped_def)
  have rest: "neverSkipped (snd (case parameters_' w2 of
                   Obj p \<Rightarrow>
                     andThen (playVideos (orNil (videos p))) (callEvent_' ''AdError'') w2
                 | Null \<Rightarrow> (Throw TypeError, w2)
                 | Undefined \<Rightarrow> (Throw TypeError, w2)))"
    if w2: "neverSkipped w2" for w2 :: vpaid_p0
  proof (cases "parameters_' w2")
    case (Obj p)
    have "neverSkipped (snd (andThen (playVideos (orNil (videos p)))
        (callEvent_' ''AdError'') w2))"
      apply (rule ns_andThen [OF w2])
       apply (erule ns_playVideos)
      apply (simp add: ns_callEvent)
      done
    with Obj show ?thesis by simp
  qed (use w2 in simp_all)
  show ?thesis
    unfolding linearButtonClick_def
    apply (rule ns_andThen [OF w1])
     apply (simp add: ns_callEvent)
    apply (erule ns_andThen)
     apply (erule ns_clearSlot)
    apply (erule rest)
    done
qed

lemma ns_click: "neverSkipped w \<Longrightarrow> neverSkipped (snd (click i w))"
  by (simp add: click_def ns_overlayOnClick ns_overlay2OnClick
      split: handle.splits handler.splits)

lemma ns_click_p0: "neverSkipped w \<Longrightarrow> neverSkipped (snd (click_p0 i w))"
  by (simp add: click_p0_def ns_nonLinearAdClick ns_linearButtonClick
      split: handle.splits handler.splits)

lemma ns_step: "neverSkipped w \<Longrightarrow> neverSkipped (step c w)"
  by (cases c) (simp_all add: ns_getters ns_initAd ns_startAd ns_stopAd ns_setAdVolume
      ns_resizeAd ns_pauseAd ns_resumeAd ns_expandAd ns_collapseAd ns_skipAd ns_subscriptions
      ns_click ns_videoEnded ns_timerFires ns_tick)

lemma ns_step_p0: "neverSkipped w \<Longrightarrow> neverSkipped (step_p0 c w)"
  by (cases c) (simp_all add: ns_getters ns_initAd_p0 ns_startAd_p0 ns_stopAd ns_setAdVolume
      ns_resizeAd_p0 ns_pauseAd ns_resumeAd_p0 ns_expandAd_p0 ns_collapseAd ns_skipAd
      ns_subscriptions ns_click_p0 ns_videoEnded ns_timerFires ns_tick)

lemma ns_run: "neverSkipped w \<Longrightarrow> neverSkipped (run cs w)"
  by (induction cs arbitrary: w) (simp_all add: ns_step)

lemma ns_run_p0: "neverSkipped w \<Longrightarrow> neverSkipped (run_p0 cs w)"
  by (induction cs arbitrary: w) (simp_all add: ns_step_p0)

lemma ns_new: "neverSkipped (VpaidNonLinear (page t g))" "neverSkipped (VpaidNonLinear_p0 (page t g))"
  by (simp_all add: neverSkipped_def VpaidNonLinear_def VpaidNonLinear_p0_def page_def)

text \<open>
  C10. \<open>skippableState\<close> is false in a new ad of either file, and it stays false and no
  \<open>AdSkipped\<close> is emitted whatever happens to the ad: any sequence of public method
  calls with any arguments (\<open>skipAd\<close> among them), clicks on the overlays, ends of the
  video, timers and time passing.
\<close>

theorem skipAd_never_emits_on_new_ad:
  "\<not> skippableState (attributes_' (run cs (VpaidNonLinear (page t g))))
   \<and> CallEvent ''AdSkipped'' \<notin> set (events (run cs (VpaidNonLinear (page t g))))
   \<and> \<not> skippableState (attributes_' (run_p0 cs (VpaidNonLinear_p0 (page t g))))
   \<and> CallEvent ''AdSkipped'' \<notin> set (events (run_p0 cs (VpaidNonLinear_p0 (page t g))))"
  using ns_run [OF ns_new(1), of cs t g] ns_run_p0 [OF ns_new(2), of cs t g]
  by (simp add: neverSkipped_def)

end
